theory Spec2Isabelle
  imports Main
begin

section \<open>Data model of the assistant front-end\<close>

text \<open>
  The program is a single React component \<open>App\<close>. Its \<open>useState\<close> cells and
  \<open>useRef\<close> cells become the fields of one record; every handler of the component
  becomes a function from the state to the updated state. A \<open>setHistory(prev => ...)\<close>
  updater is applied to the current history, in program order.

  A handler runs within one reading of the clock: every \<open>Date.now()\<close> in it yields
  the same number, which the model passes to the handler as \<open>now\<close>.

  Handlers read the state constants of the render that created them. The browser runs
  one handler at a time and React commits a render between two discrete events, so a
  synchronous handler sees the current state. The part of \<open>handleSubmit\<close> that
  runs after an \<open>await\<close> keeps the constants of the render in which the form was
  submitted: these are stored in the suspended stream record below.
\<close>

datatype role = User | Model

datatype mark = MarkX | MarkO

text \<open>A cell is \<open>'X'\<close>, \<open>'O'\<close> or \<open>null\<close>; a board is an array of rows.\<close>

type_synonym cell = "mark option"
type_synonym board = "cell list list"

text \<open>The values the props \<open>onCellClick\<close> and \<open>onMove\<close> receive in the source.\<close>

datatype cell_handler = HandlePlayerMove | NoOpClick
datatype move_handler = HandlePlayerChessMove | AlwaysFalse

datatype widget =
    TicTacToeBoard board string cell_handler
  | ChessBoard string move_handler

text \<open>
  Every id of the source is a fixed prefix followed by a number: a literal (\<open>init-1\<close>,
  \<open>game-board-1\<close>) or \<open>Date.now()\<close> (\<open>model-${Date.now()}\<close>). An id is kept as
  the pair of the prefix and the number; the prefixes hold no digit and end with a dash,
  so two pairs are equal exactly when the two strings are.
\<close>

type_synonym ident = "string \<times> nat"

record message =
  mid :: ident
  role :: role
  "text" :: "string option"
  component :: "widget option"

datatype game = NoGame | TicTacToe | Chess

datatype theme = Dark | Light
datatype gender = Male | Female

text \<open>A chess move: the object \<open>{from, to, promotion: 'q'}\<close> of a board click, or an
  entry of \<open>chess.moves()\<close>.\<close>

datatype chess_move = FromTo string string | San string

datatype colour = White | Black

text \<open>
  The rules engine is the external package imported as \<open>Chess\<close>. It is a parameter of
  the model: a position type \<open>'p\<close> and the operations the program calls. \<open>move\<close>
  yields \<open>None\<close> when the engine rejects the move and leaves the position as it was.
\<close>

record 'p engine =
  newGame :: "'p"
  load :: "string \<Rightarrow> 'p"
  fen :: "'p \<Rightarrow> string"
  move :: "'p \<Rightarrow> chess_move \<Rightarrow> 'p option"
  moves :: "'p \<Rightarrow> chess_move list"
  turn :: "'p \<Rightarrow> colour"
  inCheck :: "'p \<Rightarrow> bool"
  isGameOver :: "'p \<Rightarrow> bool"
  isCheckmate :: "'p \<Rightarrow> bool"
  isDraw :: "'p \<Rightarrow> bool"
  isStalemate :: "'p \<Rightarrow> bool"
  isThreefoldRepetition :: "'p \<Rightarrow> bool"
  isInsufficientMaterial :: "'p \<Rightarrow> bool"

text \<open>
  A suspended \<open>handleSubmit\<close>: the local \<open>modelMessageId\<close> and
  \<open>fullModelResponse\<close>, and the constants \<open>isTtsEnabled\<close> and \<open>voices\<close> of the
  render in which it was started (the latter through \<open>speak\<close>).
\<close>

record stream =
  s_id :: ident
  s_full :: string
  s_tts :: bool
  s_voices :: "string list"

text \<open>A pending \<open>setTimeout\<close> callback.\<close>

datatype timer = AiMove board | AiChessMove

record 'p state =
  history :: "message list"
  userInput :: string
  isLoading :: bool
  isListening :: bool
  isTtsEnabled :: bool
  theme :: theme
  voiceGender :: gender
  voices :: "string list"
  activeMenu :: "ident option"
  isGameModalOpen :: bool
  activeGame :: game
  chatRef :: bool
  recognitionRef :: bool
  chessRef :: "'p option"
  streams :: "stream list"
  timers :: "timer list"
  utterance :: "string option"
  playbackLog :: "string list"
  capturing :: bool
  captureStarts :: nat
  clipboard :: "string option"

text \<open>
  \<open>chatRef\<close> and \<open>recognitionRef\<close> say whether the ref holds an object. The last
  seven fields are the environment the handlers act on: the suspended submissions, the
  timer queue (all delays are 500 ms, so callbacks fire in the order they were set),
  the utterance \<open>speechSynthesis\<close> is playing, every text ever handed to
  \<open>speechSynthesis.speak\<close>, whether the recognition session runs, how many times
  \<open>recognition.start()\<close> was called, and the clipboard.
\<close>

section \<open>Tic-tac-toe\<close>

text \<open>The eight lines of \<open>checkWinner\<close>, in the order of the source.\<close>

definition lines :: "board \<Rightarrow> cell list list" where
  "lines b =
    [[b ! 0 ! 0, b ! 0 ! 1, b ! 0 ! 2], [b ! 1 ! 0, b ! 1 ! 1, b ! 1 ! 2], [b ! 2 ! 0, b ! 2 ! 1, b ! 2 ! 2],
     [b ! 0 ! 0, b ! 1 ! 0, b ! 2 ! 0], [b ! 0 ! 1, b ! 1 ! 1, b ! 2 ! 1], [b ! 0 ! 2, b ! 1 ! 2, b ! 2 ! 2],
     [b ! 0 ! 0, b ! 1 ! 1, b ! 2 ! 2], [b ! 0 ! 2, b ! 1 ! 1, b ! 2 ! 0]]"

text \<open>The \<open>for\<close> loop over the lines: the first line whose first cell is set and
  equals the other two decides.\<close>

fun firstLine :: "cell list list \<Rightarrow> mark option" where
  "firstLine [] = None"
| "firstLine (l # ls) =
    (if l ! 0 \<noteq> None \<and> l ! 0 = l ! 1 \<and> l ! 0 = l ! 2 then l ! 0 else firstLine ls)"

datatype outcome = Winner mark | Draw

definition checkWinner :: "board \<Rightarrow> outcome option" where
  "checkWinner b =
    (case firstLine (lines b) of
       Some m \<Rightarrow> Some (Winner m)
     | None \<Rightarrow> if list_all (list_all (\<lambda>c. c \<noteq> None)) b then Some Draw else None)"

text \<open>A board as the program builds them: three rows of three cells.\<close>

definition wf_board :: "board \<Rightarrow> bool" where
  "wf_board b = (length b = 3 \<and> list_all (\<lambda>r. length r = 3) b)"

definition initialBoard :: board where
  "initialBoard = replicate 3 (replicate 3 None)"

text \<open>\<open>currentBoard.map(r => [...r])\<close> followed by \<open>newBoard[row][col] = m\<close>.\<close>

definition place :: "board \<Rightarrow> nat \<Rightarrow> nat \<Rightarrow> mark \<Rightarrow> board" where
  "place b r c m = b[r := (b ! r)[c := Some m]]"

section \<open>Timeline entries\<close>

definition textEntry :: "ident \<Rightarrow> role \<Rightarrow> string \<Rightarrow> message" where
  "textEntry i r t = \<lparr>mid = i, role = r, text = Some t, component = None\<rparr>"

definition widgetEntry :: "ident \<Rightarrow> role \<Rightarrow> widget \<Rightarrow> message" where
  "widgetEntry i r w = \<lparr>mid = i, role = r, text = None, component = Some w\<rparr>"

definition append :: "message list \<Rightarrow> 'p state \<Rightarrow> 'p state" where
  "append ms s = s\<lparr>history := history s @ ms\<rparr>"

section \<open>Voice output and capture\<close>

text \<open>
  \<open>speak\<close>: \<open>window.speechSynthesis\<close> is taken to exist (the mount effect and
  \<open>handleSubmit\<close> call it unguarded). The first argument is the \<open>voices\<close> constant of
  the render whose \<open>speak\<close> is called. Which voice is chosen is not modelled.
\<close>

definition speak :: "string list \<Rightarrow> string \<Rightarrow> 'p state \<Rightarrow> 'p state" where
  "speak vs t s =
    (if vs = [] then s
     else s\<lparr>utterance := Some t, playbackLog := playbackLog s @ [t]\<rparr>)"

definition handleListenClick :: "'p state \<Rightarrow> 'p state" where
  "handleListenClick s =
    (if isLoading s \<or> \<not> recognitionRef s then s
     else (if isListening s then s\<lparr>capturing := False\<rparr>
           else s\<lparr>capturing := True, captureStarts := captureStarts s + 1\<rparr>)
          \<lparr>isListening := \<not> isListening s\<rparr>)"

definition onresult :: "string \<Rightarrow> 'p state \<Rightarrow> 'p state" where
  "onresult transcript s = s\<lparr>userInput := transcript\<rparr>"

definition onend :: "'p state \<Rightarrow> 'p state" where
  "onend s = s\<lparr>isListening := False, capturing := False\<rparr>"

definition onerror :: "'p state \<Rightarrow> 'p state" where
  "onerror s = s\<lparr>isListening := False, capturing := False\<rparr>"

definition toggleTts :: "'p state \<Rightarrow> 'p state" where
  "toggleTts s =
    s\<lparr>utterance := (if isTtsEnabled s then None else utterance s),
      isTtsEnabled := \<not> isTtsEnabled s\<rparr>"

definition toggleTheme :: "'p state \<Rightarrow> 'p state" where
  "toggleTheme s = s\<lparr>theme := (if theme s = Dark then Light else Dark)\<rparr>"

definition toggleVoiceGender :: "'p state \<Rightarrow> 'p state" where
  "toggleVoiceGender s = s\<lparr>voiceGender := (if voiceGender s = Male then Female else Male)\<rparr>"

definition handleCopy :: "string \<Rightarrow> 'p state \<Rightarrow> 'p state" where
  "handleCopy t s = s\<lparr>clipboard := Some t, activeMenu := None\<rparr>"

definition handleReadAloud :: "string \<Rightarrow> 'p state \<Rightarrow> 'p state" where
  "handleReadAloud t s = (if t \<noteq> [] then speak (voices s) t s else s)\<lparr>activeMenu := None\<rparr>"

section \<open>Games\<close>

definition concluded :: string where
  "concluded = ''Game concluded. I am ready for your next command, Srabon.''"

definition endGame :: "nat \<Rightarrow> 'p state \<Rightarrow> 'p state" where
  "endGame now s =
    append [textEntry (''game-end-'', now) Model concluded] (s\<lparr>activeGame := NoGame\<rparr>)"

definition startTicTacToe :: "'p state \<Rightarrow> 'p state" where
  "startTicTacToe s =
    append
      [textEntry (''game-start-'', 1) Model
         ''An excellent choice, Srabon. Let's play Tic-Tac-Toe. You are 'X'. Make your move.'',
       widgetEntry (''game-board-'', 1) Model (TicTacToeBoard initialBoard ''playing'' HandlePlayerMove)]
      (s\<lparr>isGameModalOpen := False, activeGame := TicTacToe\<rparr>)"

definition playerEndMessage :: "outcome \<Rightarrow> string" where
  "playerEndMessage w =
    (if w = Winner MarkX then ''Congratulations, Srabon, you've won!'' else ''A draw. A well-played game.'')"

text \<open>\<open>handlePlayerMove(row, col, currentBoard)\<close>; \<open>now\<close> is the reading of
  \<open>Date.now()\<close> while the handler runs.\<close>

definition handlePlayerMove :: "nat \<Rightarrow> nat \<Rightarrow> nat \<Rightarrow> board \<Rightarrow> 'p state \<Rightarrow> 'p state" where
  "handlePlayerMove now row col currentBoard s =
    (if currentBoard ! row ! col \<noteq> None \<or> checkWinner currentBoard \<noteq> None then s
     else
       let newBoard = place currentBoard row col MarkX;
           s1 = append [widgetEntry (''game-board-'', now) User
                          (TicTacToeBoard newBoard ''playing'' NoOpClick)] s
       in case checkWinner newBoard of
            Some winner \<Rightarrow>
              endGame now (append [textEntry (''game-end-msg-'', now) Model (playerEndMessage winner)] s1)
          | None \<Rightarrow> s1\<lparr>timers := timers s1 @ [AiMove newBoard]\<rparr>)"

definition emptyCells :: "board \<Rightarrow> (nat \<times> nat) list" where
  "emptyCells b = concat (map (\<lambda>r. concat (map (\<lambda>c. if b ! r ! c = None then [(r, c)] else []) [0, 1, 2])) [0, 1, 2])"

definition aiEndMessage :: "outcome \<Rightarrow> string" where
  "aiEndMessage w =
    (if w = Winner MarkO then ''It appears I have won this round. Better luck next time, Srabon.''
     else ''A draw. A well-played game.'')"

text \<open>\<open>handleAiMove(currentBoard)\<close>; \<open>rnd\<close> stands for \<open>Math.random()\<close>: the cell
  chosen is the one at index \<open>rnd mod n\<close> of the \<open>n\<close> empty cells. \<open>aiBoard\<close> is
  the \<open>newBoard\<close> of the handler: with no empty cell, no mark is set.\<close>

definition aiBoard :: "nat \<Rightarrow> board \<Rightarrow> board" where
  "aiBoard rnd currentBoard =
    (let cells = emptyCells currentBoard
     in if cells = [] then currentBoard
        else place currentBoard (fst (cells ! (rnd mod length cells)))
               (snd (cells ! (rnd mod length cells))) MarkO)"

definition handleAiMove :: "nat \<Rightarrow> nat \<Rightarrow> board \<Rightarrow> 'p state \<Rightarrow> 'p state" where
  "handleAiMove now rnd currentBoard s =
    (let newBoard = aiBoard rnd currentBoard;
         winner = checkWinner newBoard;
         status = (if winner \<noteq> None then ''finished'' else ''playing'');
         s1 = append [widgetEntry (''game-board-'', now) Model
                        (TicTacToeBoard newBoard status HandlePlayerMove)] s
     in case winner of
          Some w \<Rightarrow> endGame now (append [textEntry (''game-end-msg-'', now) Model (aiEndMessage w)] s1)
        | None \<Rightarrow> s1)"

definition startChess :: "'p engine \<Rightarrow> 'p state \<Rightarrow> 'p state" where
  "startChess E s =
    append
      [textEntry (''game-start-chess-'', 1) Model
         ''Very well, Srabon. A game of Chess it is. You play as White. Your move.'',
       widgetEntry (''game-board-chess-'', 1) Model (ChessBoard (fen E (newGame E)) HandlePlayerChessMove)]
      (s\<lparr>isGameModalOpen := False, activeGame := Chess, chessRef := Some (newGame E)\<rparr>)"

definition chessEndMessage :: "'p engine \<Rightarrow> 'p \<Rightarrow> string" where
  "chessEndMessage E p =
    (if isCheckmate E p then
       (if turn E p \<noteq> White then ''Checkmate. An impressive victory, Srabon.''
        else ''Checkmate. I have won this time, Srabon.'')
     else if isDraw E p then
       (if isStalemate E p then ''Stalemate. The game is a draw.''
        else if isThreefoldRepetition E p then ''Draw by threefold repetition.''
        else if isInsufficientMaterial E p then ''Draw due to insufficient material.''
        else ''The game is a draw.'')
     else ''The game is over.'')"

text \<open>\<open>handleChessGameOver\<close> reads \<open>chessRef.current\<close> unguarded; both callers have
  checked it, and with an empty ref the call raises and nothing is updated.\<close>

definition handleChessGameOver :: "'p engine \<Rightarrow> nat \<Rightarrow> 'p state \<Rightarrow> 'p state" where
  "handleChessGameOver E now s =
    (case chessRef s of
       None \<Rightarrow> s
     | Some p \<Rightarrow> endGame now (append [textEntry (''game-end-msg-'', now) Model (chessEndMessage E p)] s))"

definition handlePlayerChessMove :: "'p engine \<Rightarrow> nat \<Rightarrow> chess_move \<Rightarrow> 'p state \<Rightarrow> bool \<times> 'p state" where
  "handlePlayerChessMove E now mv s =
    (case chessRef s of
       None \<Rightarrow> (False, s)
     | Some p \<Rightarrow>
         if isGameOver E p then (False, s)
         else (case move E p mv of
                 None \<Rightarrow> (False, s)
               | Some p' \<Rightarrow>
                   let s1 = append [widgetEntry (''game-board-chess-user-'', now) User
                                      (ChessBoard (fen E p') AlwaysFalse)]
                              (s\<lparr>chessRef := Some p'\<rparr>)
                   in (True, (if isGameOver E p' then handleChessGameOver E now s1
                              else s1\<lparr>timers := timers s1 @ [AiChessMove]\<rparr>))))"

text \<open>\<open>handleAiChessMove\<close> does not look at the result of \<open>move\<close>. With no move to
  choose from, \<open>move(undefined)\<close> raises and nothing is updated. \<open>aiPosition\<close> is
  the position after the chosen move.\<close>

definition aiPosition :: "'p engine \<Rightarrow> nat \<Rightarrow> 'p \<Rightarrow> 'p" where
  "aiPosition E rnd p =
    (case move E p (moves E p ! (rnd mod length (moves E p))) of None \<Rightarrow> p | Some q \<Rightarrow> q)"

definition handleAiChessMove :: "'p engine \<Rightarrow> nat \<Rightarrow> nat \<Rightarrow> 'p state \<Rightarrow> 'p state" where
  "handleAiChessMove E now rnd s =
    (case chessRef s of
       None \<Rightarrow> s
     | Some p \<Rightarrow>
         if isGameOver E p then s
         else if moves E p = [] then s
         else
           let p' = aiPosition E rnd p;
               boardEntry = widgetEntry (''game-board-chess-ai-'', now) Model
                              (ChessBoard (fen E p') HandlePlayerChessMove);
               messages = (if inCheck E p'
                           then [textEntry (''chess-check-'', now) Model ''Check.'', boardEntry]
                           else [boardEntry]);
               s1 = append messages (s\<lparr>chessRef := Some p'\<rparr>)
           in if isGameOver E p' then handleChessGameOver E now s1 else s1)"

section \<open>Submitting a message and the streamed reply\<close>

text \<open>
  Strings of the model are the UTF-8 bytes of the strings of the program.
  \<open>!userInput.trim()\<close>: the input is empty once the white space at both ends is
  removed, that is, it holds white space only. \<open>trim\<close> removes the white space and the
  line terminators of the language: the six of the ASCII range (\<open>isSpace\<close>), U+00A0
  (two bytes), and U+1680, U+2000 to U+200A, U+2028, U+2029, U+202F, U+205F, U+3000 and
  U+FEFF (three bytes each, \<open>isWideSpace\<close>).
\<close>

definition isSpace :: "char \<Rightarrow> bool" where
  "isSpace c = (c = CHR '' '' \<or> c = CHR 0x09 \<or> c = CHR 0x0A \<or> c = CHR 0x0B \<or> c = CHR 0x0C \<or> c = CHR 0x0D)"

definition isWideSpace :: "char \<Rightarrow> char \<Rightarrow> char \<Rightarrow> bool" where
  "isWideSpace c d e =
    ((c = CHR 0xE1 \<and> d = CHR 0x9A \<and> e = CHR 0x80)
     \<or> (c = CHR 0xE2 \<and> d = CHR 0x80
          \<and> ((0x80 :: nat) \<le> of_char e \<and> of_char e \<le> (0x8A :: nat) \<or> e = CHR 0xA8 \<or> e = CHR 0xA9 \<or> e = CHR 0xAF))
     \<or> (c = CHR 0xE2 \<and> d = CHR 0x81 \<and> e = CHR 0x9F)
     \<or> (c = CHR 0xE3 \<and> d = CHR 0x80 \<and> e = CHR 0x80)
     \<or> (c = CHR 0xEF \<and> d = CHR 0xBB \<and> e = CHR 0xBF))"

fun blank :: "string \<Rightarrow> bool" where
  "blank [] = True"
| "blank [c] = isSpace c"
| "blank [c, d] = ((isSpace c \<and> isSpace d) \<or> (c = CHR 0xC2 \<and> d = CHR 0xA0))"
| "blank (c # d # e # t) =
    ((isSpace c \<and> blank (d # e # t))
     \<or> (c = CHR 0xC2 \<and> d = CHR 0xA0 \<and> blank (e # t))
     \<or> (isWideSpace c d e \<and> blank t))"

definition apology :: string where
  "apology = ''Apologies, Srabon. I seem to be having some trouble connecting to the network.''"

text \<open>
  \<open>handleSubmit\<close> up to its first \<open>await\<close>. The rest of the function is suspended:
  it is added to \<open>streams\<close> and resumed by the chunks, the failure or the end of the
  reply.
\<close>

definition handleSubmit :: "nat \<Rightarrow> 'p state \<Rightarrow> 'p state" where
  "handleSubmit now s =
    (if blank (userInput s) \<or> isLoading s \<or> \<not> chatRef s then s
     else
       let s1 = s\<lparr>utterance := None\<rparr>;
           s2 = (if isListening s then s1\<lparr>capturing := False, isListening := False\<rparr> else s1);
           userMessage = textEntry (''user-'', now) User (userInput s);
           s3 = (append [userMessage] s2)\<lparr>userInput := [], isLoading := True\<rparr>;
           modelMessageId = (''model-'', now);
           s4 = append [textEntry modelMessageId Model []] s3
       in s4\<lparr>streams := streams s4 @
                 [\<lparr>s_id = modelMessageId, s_full = [], s_tts = isTtsEnabled s, s_voices = voices s\<rparr>]\<rparr>)"

text \<open>The two updaters of the reply, applied to every entry of the history.\<close>

definition addChunk :: "ident \<Rightarrow> string \<Rightarrow> message \<Rightarrow> message" where
  "addChunk i chunkText msg =
    (if mid msg = i
     then msg\<lparr>text := Some ((case text msg of None \<Rightarrow> [] | Some t \<Rightarrow> t) @ chunkText)\<rparr>
     else msg)"

definition setText :: "ident \<Rightarrow> string \<Rightarrow> message \<Rightarrow> message" where
  "setText i t msg = (if mid msg = i then msg\<lparr>text := Some t\<rparr> else msg)"

text \<open>One turn of the \<open>for await\<close> loop of the \<open>k\<close>-th suspended submission.\<close>

definition streamChunk :: "nat \<Rightarrow> string \<Rightarrow> 'p state \<Rightarrow> 'p state" where
  "streamChunk k chunkText s =
    (if k < length (streams s) then
       let st = streams s ! k
       in s\<lparr>streams := (streams s)[k := st\<lparr>s_full := s_full st @ chunkText\<rparr>],
            history := map (addChunk (s_id st) chunkText) (history s)\<rparr>
     else s)"

text \<open>The \<open>finally\<close> block, with the final value of \<open>fullModelResponse\<close>.\<close>

definition finish :: "nat \<Rightarrow> stream \<Rightarrow> string \<Rightarrow> 'p state \<Rightarrow> 'p state" where
  "finish k st fullModelResponse s =
    (let s1 = s\<lparr>isLoading := False, streams := take k (streams s) @ drop (Suc k) (streams s)\<rparr>
     in if s_tts st \<and> fullModelResponse \<noteq> [] then speak (s_voices st) fullModelResponse s1 else s1)"

text \<open>The reply ends: the loop is left and \<open>finally\<close> runs.\<close>

definition streamEnd :: "nat \<Rightarrow> 'p state \<Rightarrow> 'p state" where
  "streamEnd k s =
    (if k < length (streams s) then finish k (streams s ! k) (s_full (streams s ! k)) s else s)"

text \<open>The transport fails, in \<open>sendMessageStream\<close> or in the loop: \<open>catch\<close>, then
  \<open>finally\<close>.\<close>

definition streamFail :: "nat \<Rightarrow> 'p state \<Rightarrow> 'p state" where
  "streamFail k s =
    (if k < length (streams s) then
       finish k (streams s ! k) apology
         (s\<lparr>history := map (setText (s_id (streams s ! k)) apology) (history s)\<rparr>)
     else s)"

section \<open>Events\<close>

text \<open>
  What can happen to the component: the clicks and inputs the rendered page offers, and
  the callbacks of the recognition service, of the timers and of the reply stream.
  Entries of the timeline are named by their position in the history; \<open>now\<close> is the
  clock and \<open>rnd\<close> the random number read by the handler.
\<close>

datatype event =
    FormSubmit nat
  | InputChange string
  | MicClick
  | RecognitionResult string
  | RecognitionEnd
  | RecognitionError
  | TtsClick
  | ThemeClick
  | GenderClick
  | OptionsClick nat
  | CopyClick nat
  | ReadAloudClick nat
  | GameCenterClick
  | CloseModalClick
  | OutsideClick
  | TicTacToeClick
  | ChessClick
  | ForfeitClick nat
  | CellClick nat nat nat nat
  | BoardMove nat chess_move nat
  | TimerFire nat nat
  | StreamChunk nat string
  | StreamFail nat
  | StreamEnd nat
  | VoicesChanged "string list"

text \<open>The text of an entry when it is truthy (\<open>msg.text && ...\<close>).\<close>

definition shownText :: "message list \<Rightarrow> nat \<Rightarrow> string option" where
  "shownText h i =
    (if i < length h then (case text (h ! i) of Some t \<Rightarrow> (if t = [] then None else Some t) | None \<Rightarrow> None)
     else None)"

definition widgetAt :: "message list \<Rightarrow> nat \<Rightarrow> widget option" where
  "widgetAt h i = (if i < length h then component (h ! i) else None)"

text \<open>
  What the rendered page lets through: the footer shows the form only while no game is
  active and the forfeit button otherwise, buttons carry their \<open>disabled\<close> attribute,
  a menu belongs to an entry with text, a board offers its empty cells while its status is
  \<open>playing\<close>, and a chess board forwards a click while its own position has White
  to move. Callbacks need their source: a running capture, a pending timer, a
  suspended submission.
\<close>

definition enabled :: "'p engine \<Rightarrow> 'p state \<Rightarrow> event \<Rightarrow> bool" where
  "enabled E s e =
    (case e of
       FormSubmit now \<Rightarrow> activeGame s = NoGame \<and> \<not> isLoading s \<and> \<not> isListening s \<and> \<not> blank (userInput s)
     | InputChange t \<Rightarrow> activeGame s = NoGame \<and> \<not> isLoading s \<and> \<not> isListening s
     | MicClick \<Rightarrow> activeGame s = NoGame \<and> \<not> isLoading s
     | RecognitionResult t \<Rightarrow> capturing s
     | RecognitionEnd \<Rightarrow> recognitionRef s
     | RecognitionError \<Rightarrow> recognitionRef s
     | OptionsClick i \<Rightarrow> shownText (history s) i \<noteq> None
     | CopyClick i \<Rightarrow> shownText (history s) i \<noteq> None \<and> activeMenu s = Some (mid (history s ! i))
     | ReadAloudClick i \<Rightarrow> shownText (history s) i \<noteq> None \<and> activeMenu s = Some (mid (history s ! i))
                            \<and> role (history s ! i) = Model
     | CloseModalClick \<Rightarrow> isGameModalOpen s
     | OutsideClick \<Rightarrow> activeMenu s \<noteq> None \<or> isGameModalOpen s
     | TicTacToeClick \<Rightarrow> isGameModalOpen s
     | ChessClick \<Rightarrow> isGameModalOpen s
     | ForfeitClick now \<Rightarrow> activeGame s \<noteq> NoGame
     | CellClick i r c now \<Rightarrow>
         (case widgetAt (history s) i of
            Some (TicTacToeBoard b status h) \<Rightarrow>
              r < length b \<and> c < length (b ! r) \<and> b ! r ! c = None \<and> status = ''playing''
          | _ \<Rightarrow> False)
     | BoardMove i mv now \<Rightarrow>
         (case widgetAt (history s) i of
            Some (ChessBoard f h) \<Rightarrow>
              turn E (load E f) = White \<and> \<not> isGameOver E (load E f) \<and> (case mv of FromTo a b \<Rightarrow> True | San a \<Rightarrow> False)
          | _ \<Rightarrow> False)
     | TimerFire now rnd \<Rightarrow> timers s \<noteq> []
     | StreamChunk k t \<Rightarrow> k < length (streams s)
     | StreamFail k \<Rightarrow> k < length (streams s)
     | StreamEnd k \<Rightarrow> k < length (streams s)
     | _ \<Rightarrow> True)"

text \<open>The handler each event runs.\<close>

definition handle :: "'p engine \<Rightarrow> 'p state \<Rightarrow> event \<Rightarrow> 'p state" where
  "handle E s e =
    (case e of
       FormSubmit now \<Rightarrow> handleSubmit now s
     | InputChange t \<Rightarrow> s\<lparr>userInput := t\<rparr>
     | MicClick \<Rightarrow> handleListenClick s
     | RecognitionResult t \<Rightarrow> onresult t s
     | RecognitionEnd \<Rightarrow> onend s
     | RecognitionError \<Rightarrow> onerror s
     | TtsClick \<Rightarrow> toggleTts s
     | ThemeClick \<Rightarrow> toggleTheme s
     | GenderClick \<Rightarrow> toggleVoiceGender s
     | OptionsClick i \<Rightarrow>
         (if i < length (history s)
          then s\<lparr>activeMenu := (if activeMenu s = Some (mid (history s ! i)) then None
                                else Some (mid (history s ! i)))\<rparr>
          else s)
     | CopyClick i \<Rightarrow> (case shownText (history s) i of Some t \<Rightarrow> handleCopy t s | None \<Rightarrow> s)
     | ReadAloudClick i \<Rightarrow> (case shownText (history s) i of Some t \<Rightarrow> handleReadAloud t s | None \<Rightarrow> s)
     | GameCenterClick \<Rightarrow> s\<lparr>isGameModalOpen := True\<rparr>
     | CloseModalClick \<Rightarrow> s\<lparr>isGameModalOpen := False\<rparr>
     | OutsideClick \<Rightarrow> s\<lparr>activeMenu := None, isGameModalOpen := False\<rparr>
     | TicTacToeClick \<Rightarrow> startTicTacToe s
     | ChessClick \<Rightarrow> startChess E s
     | ForfeitClick now \<Rightarrow> endGame now s
     | CellClick i r c now \<Rightarrow>
         (case widgetAt (history s) i of
            Some (TicTacToeBoard b status HandlePlayerMove) \<Rightarrow> handlePlayerMove now r c b s
          | _ \<Rightarrow> s)
     | BoardMove i mv now \<Rightarrow>
         (case widgetAt (history s) i of
            Some (ChessBoard f HandlePlayerChessMove) \<Rightarrow> snd (handlePlayerChessMove E now mv s)
          | _ \<Rightarrow> s)
     | TimerFire now rnd \<Rightarrow>
         (case timers s of
            [] \<Rightarrow> s
          | AiMove b # ts \<Rightarrow> handleAiMove now rnd b (s\<lparr>timers := ts\<rparr>)
          | AiChessMove # ts \<Rightarrow> handleAiChessMove E now rnd (s\<lparr>timers := ts\<rparr>))
     | StreamChunk k t \<Rightarrow> streamChunk k t s
     | StreamFail k \<Rightarrow> streamFail k s
     | StreamEnd k \<Rightarrow> streamEnd k s
     | VoicesChanged vs \<Rightarrow> s\<lparr>voices := vs\<rparr>)"

definition step :: "'p engine \<Rightarrow> 'p state \<Rightarrow> event \<Rightarrow> 'p state" where
  "step E s e = (if enabled E s e then handle E s e else s)"

definition run :: "'p engine \<Rightarrow> 'p state \<Rightarrow> event list \<Rightarrow> 'p state" where
  "run E s es = foldl (step E) s es"

text \<open>
  The state after the mount effects: \<open>initChat\<close> has succeeded or not, the browser
  offers speech recognition or not, and \<open>loadVoices\<close> has read the voice catalogue.
\<close>

definition mounted :: "bool \<Rightarrow> bool \<Rightarrow> string list \<Rightarrow> 'p state" where
  "mounted chatOk recognitionOk vs =
    \<lparr>history =
       (if chatOk then [textEntry (''init-'', 1) Model ''Good day, Srabon. Victor online and ready to assist.'']
        else [textEntry (''init-error-'', 1) Model
                ''Error: Could not initialize AI services. Please check configuration.'']),
     userInput = [], isLoading = False, isListening = False, isTtsEnabled = True,
     theme = Dark, voiceGender = Male, voices = vs, activeMenu = None,
     isGameModalOpen = False, activeGame = NoGame, chatRef = chatOk,
     recognitionRef = recognitionOk, chessRef = None, streams = [], timers = [],
     utterance = None, playbackLog = [], capturing = False, captureStarts = 0,
     clipboard = None\<rparr>"

text \<open>
  A stand-in for the rules engine, used to run the model on concrete inputs. A position
  is a number, even when White is to move; a move adds one, a mating move (a board
  move to \<open>f7\<close>, or the reply \<open>Qh4#\<close>, which is what Black has after three plies) adds
  eleven, and a board move to \<open>h8\<close>, which leaves the opponent without a move, adds
  twenty-one. From ten on the game is over: by checkmate below twenty, by stalemate from
  twenty on. A board move is rejected when it starts and ends on the same square.
\<close>

definition miniEngine :: "nat engine" where
  "miniEngine =
    \<lparr>newGame = 0, load = length, fen = (\<lambda>p. replicate p (CHR ''m'')),
     move = (\<lambda>p m. case m of
                FromTo a b \<Rightarrow> (if a = b then None else if b = ''f7'' then Some (p + 11)
                               else if b = ''h8'' then Some (p + 21) else Some (Suc p))
              | San a \<Rightarrow> (if a = ''Qh4#'' then Some (p + 11) else Some (Suc p))),
     moves = (\<lambda>p. if 10 \<le> p then [] else if p = 3 then [San ''Qh4#''] else [San ''e5'']),
     turn = (\<lambda>p. if even p then White else Black),
     inCheck = (\<lambda>p. 10 \<le> p \<and> p < 20), isGameOver = (\<lambda>p. 10 \<le> p),
     isCheckmate = (\<lambda>p. 10 \<le> p \<and> p < 20),
     isDraw = (\<lambda>p. 20 \<le> p), isStalemate = (\<lambda>p. 20 \<le> p),
     isThreefoldRepetition = (\<lambda>p. False), isInsufficientMaterial = (\<lambda>p. False)\<rparr>"

section \<open>The earlier variant of the component\<close>

text \<open>
  \<open>src/index.tsx\<close> is the component before the games were added. Its entries have a
  speaker and a text and no id, and the two updaters of the reply act on the last entry
  of the history. Both read the last entry of \<open>prev\<close>; on an empty history the first
  raises and the second sets no element, and the history stays empty.
\<close>

record plainMessage =
  p_role :: role
  p_text :: string

definition appendToLast :: "string \<Rightarrow> plainMessage list \<Rightarrow> plainMessage list" where
  "appendToLast chunkText prev =
    (if prev = [] then prev
     else if p_role (last prev) = Model
       then butlast prev @ [(last prev)\<lparr>p_text := p_text (last prev) @ chunkText\<rparr>]
       else prev)"

definition replaceLast :: "plainMessage \<Rightarrow> plainMessage list \<Rightarrow> plainMessage list" where
  "replaceLast errorMessage prev = (if prev = [] then prev else butlast prev @ [errorMessage])"

text \<open>The two entries \<open>handleSubmit\<close> appends before the reply starts, and the updater of
  its \<open>catch\<close> block with the \<open>errorMessage\<close> built there.\<close>

definition submitEntries :: "string \<Rightarrow> plainMessage list \<Rightarrow> plainMessage list" where
  "submitEntries input prev =
    (prev @ [\<lparr>p_role = User, p_text = input\<rparr>]) @ [\<lparr>p_role = Model, p_text = []\<rparr>]"

definition catchUpdate :: "plainMessage list \<Rightarrow> plainMessage list" where
  "catchUpdate prev = replaceLast \<lparr>p_role = Model, p_text = apology\<rparr> prev"

section \<open>Vocabulary of the properties\<close>

text \<open>The rules of the game, stated on coordinates: the eight winning lines, a mark
  holding one of them, and a board with no empty cell.\<close>

definition winLines :: "(nat \<times> nat) list list" where
  "winLines =
    [[(0, 0), (0, 1), (0, 2)], [(1, 0), (1, 1), (1, 2)], [(2, 0), (2, 1), (2, 2)],
     [(0, 0), (1, 0), (2, 0)], [(0, 1), (1, 1), (2, 1)], [(0, 2), (1, 2), (2, 2)],
     [(0, 0), (1, 1), (2, 2)], [(0, 2), (1, 1), (2, 0)]]"

definition threeInRow :: "board \<Rightarrow> mark \<Rightarrow> bool" where
  "threeInRow b m = list_ex (list_all (\<lambda>(r, c). b ! r ! c = Some m)) winLines"

definition filled :: "board \<Rightarrow> bool" where
  "filled b = list_all (\<lambda>r. list_all (\<lambda>c. b ! r ! c \<noteq> None) [0, 1, 2]) [0, 1, 2]"

text \<open>What an entry keeps for its whole life: its id, its speaker and its widget.\<close>

definition frame :: "message \<Rightarrow> ident \<times> role \<times> widget option" where
  "frame m = (mid m, role m, component m)"

text \<open>\<open>evolves h h'\<close>: \<open>h'\<close> holds the entries of \<open>h\<close> at their places, up to their
  text, and possibly more entries behind them.\<close>

definition evolves :: "message list \<Rightarrow> message list \<Rightarrow> bool" where
  "evolves h h' = (length h \<le> length h' \<and> map frame (take (length h) h') = map frame h)"

text \<open>The component has no mode variable: sending is \<open>isLoading\<close>, listening is
  \<open>isListening\<close> and a game is active when \<open>activeGame\<close> is not \<open>'none'\<close>.\<close>

definition activeMembers :: "'p state \<Rightarrow> nat" where
  "activeMembers s = length (filter id [isLoading s, isListening s, activeGame s \<noteq> NoGame])"

definition atMostOneActive :: "'p state \<Rightarrow> bool" where
  "atMostOneActive s = (activeMembers s \<le> 1)"


text \<open>The user has typed a message.\<close>

definition inputTyped :: "nat state" where
  "inputTyped = run miniEngine (mounted True True [''v'']) [InputChange ''hi'']"

text \<open>A state with a reply in flight: the greeting, the message of the user and the
  pending entry of the assistant.\<close>

definition replyPending :: "nat state" where
  "replyPending = run miniEngine (mounted True True [''v'']) [InputChange ''hi'', FormSubmit 5]"

definition chunksAndGame :: "event list" where
  "chunksAndGame = [StreamChunk 0 ''abc'', GameCenterClick, TicTacToeClick, StreamChunk 0 ''def'']"

text \<open>The reply is in flight and a game of tic-tac-toe has been started: the pending
  entry is followed by the two opening entries of the game.\<close>

definition gameMidReply :: "nat state" where
  "gameMidReply = run miniEngine replyPending [GameCenterClick, TicTacToeClick]"

text \<open>The chunks \<open>cs\<close> arrive, in this order, on the \<open>k\<close>-th suspended submission.\<close>

definition deliver :: "nat \<Rightarrow> string list \<Rightarrow> 'p state \<Rightarrow> 'p state" where
  "deliver k cs s = foldl (\<lambda>u c. streamChunk k c u) s cs"

text \<open>Two chunks of the reply have arrived.\<close>

definition partialReply :: "nat state" where
  "partialReply = run miniEngine replyPending [StreamChunk 0 ''Hel'', StreamChunk 0 ''lo, '']"

text \<open>Games in which the player has moved, the timer of the opponent's move is pending,
  and (in the last two) the game has then been forfeited.\<close>

definition playerHasMoved :: "nat state" where
  "playerHasMoved = run miniEngine (mounted True True []) [GameCenterClick, TicTacToeClick, CellClick 2 0 0 7]"

definition forfeited :: "nat state" where
  "forfeited = run miniEngine (mounted True True [])
     [GameCenterClick, TicTacToeClick, CellClick 2 0 0 7, ForfeitClick 8]"

definition forfeitedChess :: "nat state" where
  "forfeitedChess = run miniEngine (mounted True True [])
     [GameCenterClick, ChessClick, BoardMove 2 (FromTo ''e2'' ''e4'') 7, ForfeitClick 8]"

text \<open>A game of tic-tac-toe after one move of each side, and a game of chess just
  started.\<close>

definition aiHasMoved :: "nat state" where
  "aiHasMoved = run miniEngine (mounted True True [])
     [GameCenterClick, TicTacToeClick, CellClick 2 0 0 7, TimerFire 8 0]"

definition chessStarted :: "nat state" where
  "chessStarted = run miniEngine (mounted True True []) [GameCenterClick, ChessClick]"



text \<open>A game of chess after three plies, with the timer of the opponent's move pending.\<close>

definition lastPly :: "nat state" where
  "lastPly = run miniEngine (mounted True True [])
     [GameCenterClick, ChessClick, BoardMove 2 (FromTo ''e2'' ''e4'') 7, TimerFire 8 0,
      BoardMove 4 (FromTo ''d2'' ''d4'') 9]"

section \<open>Properties of \<open>checkWinner\<close>\<close>

lemma wf_board_cells:
  assumes "wf_board b"
  obtains a0 a1 a2 b0 b1 b2 c0 c1 c2 where "b = [[a0, a1, a2], [b0, b1, b2], [c0, c1, c2]]"
proof -
  from assms obtain r0 r1 r2 where b: "b = [r0, r1, r2]"
    by (auto simp: wf_board_def length_Suc_conv numeral_3_eq_3)
  with assms have "length r0 = 3" "length r1 = 3" "length r2 = 3"
    by (simp_all add: wf_board_def)
  then obtain a0 a1 a2 b0 b1 b2 c0 c1 c2
    where "r0 = [a0, a1, a2]" "r1 = [b0, b1, b2]" "r2 = [c0, c1, c2]"
    by (auto simp: length_Suc_conv numeral_3_eq_3)
  with b show thesis using that by blast
qed

lemma firstLine_agree:
  assumes "list_all (\<lambda>l. l ! 0 \<noteq> None \<and> l ! 0 = l ! 1 \<and> l ! 0 = l ! 2 \<longrightarrow> l ! 0 = Some m) ls"
    and "list_ex (\<lambda>l. l ! 0 \<noteq> None \<and> l ! 0 = l ! 1 \<and> l ! 0 = l ! 2) ls"
  shows "firstLine ls = Some m"
  using assms by (induction ls) auto

lemma firstLine_diagonal:
  assumes "b ! 0 ! 0 = Some MarkX" "b ! 1 ! 1 = Some MarkX" "b ! 2 ! 2 = Some MarkX"
  shows "firstLine (lines b) = Some MarkX"
proof (rule firstLine_agree)
  show "list_all (\<lambda>l. l ! 0 \<noteq> None \<and> l ! 0 = l ! 1 \<and> l ! 0 = l ! 2 \<longrightarrow> l ! 0 = Some MarkX) (lines b)"
    using assms by (auto simp: lines_def)
  show "list_ex (\<lambda>l. l ! 0 \<noteq> None \<and> l ! 0 = l ! 1 \<and> l ! 0 = l ! 2) (lines b)"
    using assms by (simp add: lines_def)
qed

lemma checkWinner_diagonal:
  assumes "b ! 0 ! 0 = Some MarkX" "b ! 1 ! 1 = Some MarkX" "b ! 2 ! 2 = Some MarkX"
  shows "checkWinner b = Some (Winner MarkX)"
  by (simp add: checkWinner_def firstLine_diagonal[OF assms])

lemma same_marks:
  "(x = y \<and> x = z) = ((x = MarkX \<and> y = MarkX \<and> z = MarkX) \<or> (x = MarkO \<and> y = MarkO \<and> z = MarkO))"
  by (cases x) auto

lemma checkWinner_draw:
  assumes "wf_board b" "filled b" "\<not> threeInRow b MarkX" "\<not> threeInRow b MarkO"
  shows "checkWinner b = Some Draw"
proof -
  from assms(1) obtain a0 a1 a2 b0 b1 b2 c0 c1 c2
    where b: "b = [[a0, a1, a2], [b0, b1, b2], [c0, c1, c2]]"
    by (rule wf_board_cells)
  from assms(2) obtain x0 x1 x2 y0 y1 y2 z0 z1 z2 where
    cells: "a0 = Some x0" "a1 = Some x1" "a2 = Some x2" "b0 = Some y0" "b1 = Some y1" "b2 = Some y2"
       "c0 = Some z0" "c1 = Some z1" "c2 = Some z2"
    by (auto simp: b filled_def)
  have full: "list_all (list_all (\<lambda>c. c \<noteq> None)) b"
    by (simp add: b cells)
  have none: "firstLine (lines b) = None"
    using assms(3,4)
    by (simp add: b cells lines_def threeInRow_def winLines_def same_marks)
  show ?thesis using full by (simp add: checkWinner_def none)
qed

lemma handlePlayerMove_terminal:
  assumes "currentBoard ! row ! col = None" "checkWinner currentBoard = None"
    and "checkWinner (place currentBoard row col MarkX) = Some w"
  shows "handlePlayerMove now row col currentBoard s =
    (s\<lparr>activeGame := NoGame,
       history := history s @
         [widgetEntry (''game-board-'', now) User
            (TicTacToeBoard (place currentBoard row col MarkX) ''playing'' NoOpClick),
          textEntry (''game-end-msg-'', now) Model (playerEndMessage w),
          textEntry (''game-end-'', now) Model concluded]\<rparr>)"
  using assms by (simp add: handlePlayerMove_def Let_def endGame_def append_def)

text \<open>
  C8. \<open>checkWinner\<close> on a board with X at (0,0), (1,1) and (2,2) reports the win of X, and
  a move of the player that completes this diagonal sets no timer for a move of the
  opponent: the three closing entries are appended and the timer queue is as it was.
  On a board with no empty cell and no line held by one mark, \<open>checkWinner\<close> reports a
  draw.
\<close>

theorem checkWinner_diagonal_and_draw:
  "(wf_board b \<and> b ! 0 ! 0 = Some MarkX \<and> b ! 1 ! 1 = Some MarkX \<and> b ! 2 ! 2 = Some MarkX
      \<longrightarrow> checkWinner b = Some (Winner MarkX))
   \<and> (wf_board cb \<and> cb ! r ! c = None \<and> checkWinner cb = None
        \<and> place cb r c MarkX ! 0 ! 0 = Some MarkX \<and> place cb r c MarkX ! 1 ! 1 = Some MarkX
        \<and> place cb r c MarkX ! 2 ! 2 = Some MarkX
      \<longrightarrow> timers (handlePlayerMove now r c cb s) = timers s
          \<and> history (handlePlayerMove now r c cb s) =
              history s @
                [widgetEntry (''game-board-'', now) User (TicTacToeBoard (place cb r c MarkX) ''playing'' NoOpClick),
                 textEntry (''game-end-msg-'', now) Model ''Congratulations, Srabon, you've won!'',
                 textEntry (''game-end-'', now) Model concluded])
   \<and> (wf_board d \<and> filled d \<and> \<not> threeInRow d MarkX \<and> \<not> threeInRow d MarkO
      \<longrightarrow> checkWinner d = Some Draw)"
proof (intro conjI impI)
  assume "wf_board b \<and> b ! 0 ! 0 = Some MarkX \<and> b ! 1 ! 1 = Some MarkX \<and> b ! 2 ! 2 = Some MarkX"
  then show "checkWinner b = Some (Winner MarkX)"
    by (simp add: checkWinner_diagonal)
next
  assume a: "wf_board cb \<and> cb ! r ! c = None \<and> checkWinner cb = None
        \<and> place cb r c MarkX ! 0 ! 0 = Some MarkX \<and> place cb r c MarkX ! 1 ! 1 = Some MarkX
        \<and> place cb r c MarkX ! 2 ! 2 = Some MarkX"
  then have w: "checkWinner (place cb r c MarkX) = Some (Winner MarkX)"
    by (simp add: checkWinner_diagonal)
  from a have e: "cb ! r ! c = None" "checkWinner cb = None" by simp_all
  show "timers (handlePlayerMove now r c cb s) = timers s"
    by (simp add: handlePlayerMove_terminal[OF e w])
  show "history (handlePlayerMove now r c cb s) =
      history s @
        [widgetEntry (''game-board-'', now) User (TicTacToeBoard (place cb r c MarkX) ''playing'' NoOpClick),
         textEntry (''game-end-msg-'', now) Model ''Congratulations, Srabon, you've won!'',
         textEntry (''game-end-'', now) Model concluded]"
    by (simp add: handlePlayerMove_terminal[OF e w] playerEndMessage_def)
next
  assume "wf_board d \<and> filled d \<and> \<not> threeInRow d MarkX \<and> \<not> threeInRow d MarkO"
  then show "checkWinner d = Some Draw"
    by (simp add: checkWinner_draw)
qed

theorem checkWinner_diagonal_and_draw_witness:
  "checkWinner [[Some MarkX, None, None], [None, Some MarkX, None], [None, None, Some MarkX]]
     = Some (Winner MarkX)
   \<and> timers (handlePlayerMove 7 2 2 [[Some MarkX, None, None], [None, Some MarkX, None], [None, None, None]]
        (mounted True True [] :: nat state)) = []
   \<and> map mid (history (handlePlayerMove 7 2 2
        [[Some MarkX, None, None], [None, Some MarkX, None], [None, None, None]]
        (mounted True True [] :: nat state)))
      = [(''init-'', 1), (''game-board-'', 7), (''game-end-msg-'', 7), (''game-end-'', 7)]
   \<and> checkWinner [[Some MarkX, Some MarkO, Some MarkX], [Some MarkX, Some MarkO, Some MarkO],
                  [Some MarkO, Some MarkX, Some MarkX]] = Some Draw"
proof -
  let ?b = "[[Some MarkX, None, None], [None, Some MarkX, None], [None, None, Some MarkX]]"
  let ?cb = "[[Some MarkX, None, None], [None, Some MarkX, None], [None, None, None]]"
  let ?d = "[[Some MarkX, Some MarkO, Some MarkX], [Some MarkX, Some MarkO, Some MarkO],
             [Some MarkO, Some MarkX, Some MarkX]]"
  have h1: "wf_board ?b \<and> ?b ! 0 ! 0 = Some MarkX \<and> ?b ! 1 ! 1 = Some MarkX \<and> ?b ! 2 ! 2 = Some MarkX"
    by (simp add: wf_board_def)
  have h2: "wf_board ?cb \<and> ?cb ! 2 ! 2 = None \<and> checkWinner ?cb = None
        \<and> place ?cb 2 2 MarkX ! 0 ! 0 = Some MarkX \<and> place ?cb 2 2 MarkX ! 1 ! 1 = Some MarkX
        \<and> place ?cb 2 2 MarkX ! 2 ! 2 = Some MarkX"
    by (simp add: wf_board_def checkWinner_def lines_def place_def)
  have h3: "wf_board ?d \<and> filled ?d \<and> \<not> threeInRow ?d MarkX \<and> \<not> threeInRow ?d MarkO"
    by (simp add: wf_board_def filled_def threeInRow_def winLines_def)
  from checkWinner_diagonal_and_draw[of ?b ?cb 2 2 7 "mounted True True [] :: nat state" ?d] h1 h2 h3
  show ?thesis
    by (simp add: mounted_def textEntry_def widgetEntry_def)
qed

section \<open>The timeline only grows\<close>

lemma evolves_refl: "evolves h h"
  by (simp add: evolves_def)

lemma evolves_trans:
  assumes "evolves h h'" "evolves h' h''"
  shows "evolves h h''"
proof -
  from assms have le: "length h \<le> length h'" "length h' \<le> length h''"
    by (simp_all add: evolves_def)
  have "map frame (take (length h) h'') = take (length h) (map frame (take (length h') h''))"
    using le by (simp add: take_map min_def)
  also have "\<dots> = take (length h) (map frame h')"
    using assms(2) by (simp add: evolves_def)
  also have "\<dots> = map frame h"
    using assms(1) by (simp add: evolves_def take_map)
  finally show ?thesis using le by (simp add: evolves_def)
qed

lemma evolves_append: "evolves h k \<Longrightarrow> evolves h (k @ ms)"
  by (auto simp: evolves_def)

lemma evolves_map:
  assumes "\<And>m. frame (f m) = frame m"
  shows "evolves h (map f h)"
  using assms by (simp add: evolves_def)

lemma evolves_nth:
  assumes "evolves h h'" "i < length h"
  shows "mid (h' ! i) = mid (h ! i) \<and> role (h' ! i) = role (h ! i)
    \<and> component (h' ! i) = component (h ! i)"
proof -
  from assms have eq: "map frame (take (length h) h') = map frame h" and le: "i < length h'"
    by (simp_all add: evolves_def)
  have "frame (h' ! i) = map frame (take (length h) h') ! i"
    using assms(2) le by simp
  also have "\<dots> = frame (h ! i)"
    using assms(2) by (simp only: eq nth_map)
  finally show ?thesis by (simp add: frame_def)
qed

lemma frame_addChunk: "frame (addChunk i t m) = frame m"
  by (simp add: frame_def addChunk_def)

lemma frame_setText: "frame (setText i t m) = frame m"
  by (simp add: frame_def setText_def)

lemma history_append [simp]: "history (append ms s) = history s @ ms"
  by (simp add: append_def)

lemma history_speak [simp]: "history (speak vs t s) = history s"
  by (simp add: speak_def)

lemma history_endGame [simp]:
  "history (endGame now s) = history s @ [textEntry (''game-end-'', now) Model concluded]"
  by (simp add: endGame_def)

lemma history_finish [simp]: "history (finish k st t s) = history s"
  by (simp add: finish_def Let_def)

lemma handleSubmit_evolves: "evolves (history s) (history (handleSubmit now s))"
  by (simp add: handleSubmit_def Let_def evolves_append evolves_refl)

lemma handlePlayerMove_evolves: "evolves (history s) (history (handlePlayerMove now r c b s))"
  by (simp add: handlePlayerMove_def Let_def evolves_append evolves_refl split: option.split)

lemma handleAiMove_evolves: "evolves (history s) (history (handleAiMove now rnd b s))"
  by (simp add: handleAiMove_def Let_def evolves_append evolves_refl split: option.split)

lemma handlePlayerChessMove_evolves:
  "evolves (history s) (history (snd (handlePlayerChessMove E now mv s)))"
proof -
  have "\<exists>ms. history (snd (handlePlayerChessMove E now mv s)) = history s @ ms"
    by (auto simp: handlePlayerChessMove_def Let_def handleChessGameOver_def split: option.split)
  then show ?thesis by (auto simp: evolves_append evolves_refl)
qed

lemma handleAiChessMove_evolves:
  "evolves (history s) (history (handleAiChessMove E now rnd s))"
proof -
  have "\<exists>ms. history (handleAiChessMove E now rnd s) = history s @ ms"
    by (auto simp: handleAiChessMove_def Let_def handleChessGameOver_def split: option.split)
  then show ?thesis by (auto simp: evolves_append evolves_refl)
qed

lemma streamChunk_evolves: "evolves (history s) (history (streamChunk k t s))"
  by (simp add: streamChunk_def Let_def evolves_refl evolves_map frame_addChunk)

lemma streamFail_evolves: "evolves (history s) (history (streamFail k s))"
  by (simp add: streamFail_def evolves_refl evolves_map frame_setText)

lemma streamEnd_evolves: "evolves (history s) (history (streamEnd k s))"
  by (simp add: streamEnd_def evolves_refl)

lemma handle_evolves: "evolves (history s) (history (handle E s e))"
proof (cases e)
  case (FormSubmit now)
  then show ?thesis by (simp add: handle_def handleSubmit_evolves)
next
  case (CellClick i r c now)
  then show ?thesis
    by (simp add: handle_def handlePlayerMove_evolves evolves_refl
        split: option.split widget.split cell_handler.split)
next
  case (BoardMove i mv now)
  then show ?thesis
    by (simp add: handle_def handlePlayerChessMove_evolves evolves_refl
        split: option.split widget.split move_handler.split)
next
  case (TimerFire now rnd)
  have a: "\<And>b ts. evolves (history s) (history (handleAiMove now rnd b (s\<lparr>timers := ts\<rparr>)))"
    using handleAiMove_evolves[of "s\<lparr>timers := ts\<rparr>" for ts] by simp
  have b: "\<And>ts. evolves (history s) (history (handleAiChessMove E now rnd (s\<lparr>timers := ts\<rparr>)))"
    using handleAiChessMove_evolves[of "s\<lparr>timers := ts\<rparr>" for ts] by simp
  show ?thesis
    by (simp add: TimerFire handle_def a b evolves_refl split: list.split timer.split)
next
  case (StreamChunk k t)
  then show ?thesis by (simp add: handle_def streamChunk_evolves)
next
  case (StreamFail k)
  then show ?thesis by (simp add: handle_def streamFail_evolves)
next
  case (StreamEnd k)
  then show ?thesis by (simp add: handle_def streamEnd_evolves)
qed (simp_all add: handle_def evolves_refl evolves_append handleListenClick_def onresult_def
      onend_def onerror_def toggleTts_def toggleTheme_def toggleVoiceGender_def handleCopy_def
      handleReadAloud_def startTicTacToe_def startChess_def split: option.split)

lemma step_evolves: "evolves (history s) (history (step E s e))"
  by (simp add: step_def handle_evolves evolves_refl)

lemma run_evolves: "evolves (history s) (history (run E s es))"
proof (induction es arbitrary: s)
  case Nil
  show ?case by (simp add: run_def evolves_refl)
next
  case (Cons e es)
  have "evolves (history (step E s e)) (history (run E (step E s e) es))"
    by (rule Cons.IH)
  with step_evolves[of s E e] show ?case
    by (simp add: run_def evolves_trans)
qed

lemma handlers_evolve: "evolves (history s) (history (foldl (handle E) s es))"
proof (induction es arbitrary: s)
  case Nil
  show ?case by (simp add: evolves_refl)
next
  case (Cons e es)
  have "evolves (history (handle E s e)) (history (foldl (handle E) (handle E s e) es))"
    by (rule Cons.IH)
  with handle_evolves[of s E e] show ?case
    by (simp add: evolves_trans)
qed

text \<open>
  C1. Whatever events arrive, in whatever order and from whatever state, the history
  afterwards is at least as long as before and holds, at every position it had, an entry
  with the same id, the same speaker and the same widget: entries are only appended, or
  changed in their text. This holds for the events the page lets through (\<open>run\<close>) and
  for the handlers called in any order (\<open>foldl handle\<close>).
\<close>

theorem timeline_only_grows:
  "length (history s) \<le> length (history (run E s es))
   \<and> length (history s) \<le> length (history (foldl (handle E) s es))
   \<and> (\<forall>i < length (history s).
        mid (history (run E s es) ! i) = mid (history s ! i)
        \<and> role (history (run E s es) ! i) = role (history s ! i)
        \<and> component (history (run E s es) ! i) = component (history s ! i)
        \<and> mid (history (foldl (handle E) s es) ! i) = mid (history s ! i)
        \<and> role (history (foldl (handle E) s es) ! i) = role (history s ! i)
        \<and> component (history (foldl (handle E) s es) ! i) = component (history s ! i))"
  using run_evolves[of s E es] evolves_nth[of "history s" "history (run E s es)"]
    handlers_evolve[of s E es] evolves_nth[of "history s" "history (foldl (handle E) s es)"]
  by (simp add: evolves_def)

lemma replyPending_ids:
  "map mid (history replyPending) = [(''init-'', 1), (''user-'', 5), (''model-'', 5)]"
  by code_simp

lemma chunksAndGame_ids:
  "map mid (history (run miniEngine replyPending chunksAndGame)) =
     [(''init-'', 1), (''user-'', 5), (''model-'', 5), (''game-start-'', 1), (''game-board-'', 1)]"
  by code_simp

lemma chunksAndGame_text:
  "text (history (run miniEngine replyPending chunksAndGame) ! 2) = Some ''abcdef''"
  by code_simp

theorem timeline_only_grows_witness:
  "length (history replyPending) = 3
   \<and> length (history (run miniEngine replyPending chunksAndGame)) = 5
   \<and> text (history (run miniEngine replyPending chunksAndGame) ! 2) = Some ''abcdef''
   \<and> mid (history (run miniEngine replyPending chunksAndGame) ! 2) = mid (history replyPending ! 2)
   \<and> role (history (run miniEngine replyPending chunksAndGame) ! 2) = role (history replyPending ! 2)
   \<and> component (history (run miniEngine replyPending chunksAndGame) ! 2)
       = component (history replyPending ! 2)"
proof -
  have l1: "length (history replyPending) = 3"
    using arg_cong[OF replyPending_ids, of length] by simp
  have l2: "length (history (run miniEngine replyPending chunksAndGame)) = 5"
    using arg_cong[OF chunksAndGame_ids, of length] by simp
  from timeline_only_grows[of replyPending miniEngine chunksAndGame] l1
  have "mid (history (run miniEngine replyPending chunksAndGame) ! 2) = mid (history replyPending ! 2)
    \<and> role (history (run miniEngine replyPending chunksAndGame) ! 2) = role (history replyPending ! 2)
    \<and> component (history (run miniEngine replyPending chunksAndGame) ! 2)
       = component (history replyPending ! 2)"
    by simp
  with l1 l2 chunksAndGame_text show ?thesis by simp
qed

section \<open>Sending, listening and playing\<close>

lemma flags_append [simp]:
  "isLoading (append ms s) = isLoading s" "isListening (append ms s) = isListening s"
  by (simp_all add: append_def)

lemma flags_endGame [simp]:
  "isLoading (endGame now s) = isLoading s" "isListening (endGame now s) = isListening s"
  by (simp_all add: endGame_def)

lemma flags_speak [simp]:
  "isLoading (speak vs t s) = isLoading s" "isListening (speak vs t s) = isListening s"
  by (simp_all add: speak_def)

lemma flags_handlePlayerMove [simp]:
  "isLoading (handlePlayerMove now r c b s) = isLoading s"
  "isListening (handlePlayerMove now r c b s) = isListening s"
  by (simp_all add: handlePlayerMove_def Let_def split: option.split)

lemma flags_handleAiMove [simp]:
  "isLoading (handleAiMove now rnd b s) = isLoading s"
  "isListening (handleAiMove now rnd b s) = isListening s"
  by (simp_all add: handleAiMove_def Let_def split: option.split)

lemma flags_handleChessGameOver [simp]:
  "isLoading (handleChessGameOver E now s) = isLoading s"
  "isListening (handleChessGameOver E now s) = isListening s"
  by (simp_all add: handleChessGameOver_def split: option.split)

lemma flags_handlePlayerChessMove [simp]:
  "isLoading (snd (handlePlayerChessMove E now mv s)) = isLoading s"
  "isListening (snd (handlePlayerChessMove E now mv s)) = isListening s"
  by (simp_all add: handlePlayerChessMove_def Let_def split: option.split)

lemma flags_handleAiChessMove [simp]:
  "isLoading (handleAiChessMove E now rnd s) = isLoading s"
  "isListening (handleAiChessMove E now rnd s) = isListening s"
  by (simp_all add: handleAiChessMove_def Let_def split: option.split)

lemma flags_finish [simp]:
  "isLoading (finish k st t s) = False" "isListening (finish k st t s) = isListening s"
  by (simp_all add: finish_def Let_def)

lemma handle_not_both:
  assumes "\<not> (isLoading s \<and> isListening s)"
  shows "\<not> (isLoading (handle E s e) \<and> isListening (handle E s e))"
proof (cases e)
  case (FormSubmit now)
  then show ?thesis using assms by (simp add: handle_def handleSubmit_def Let_def)
next
  case MicClick
  then show ?thesis using assms by (auto simp: handle_def handleListenClick_def)
next
  case (CellClick i r c now)
  then show ?thesis using assms
    by (simp add: handle_def split: option.split widget.split cell_handler.split)
next
  case (BoardMove i mv now)
  then show ?thesis using assms
    by (simp add: handle_def split: option.split widget.split move_handler.split)
next
  case (TimerFire now rnd)
  then show ?thesis using assms
    by (simp add: handle_def split: list.split timer.split)
next
  case (StreamChunk k t)
  then show ?thesis using assms by (simp add: handle_def streamChunk_def Let_def)
next
  case (StreamFail k)
  then show ?thesis using assms by (simp add: handle_def streamFail_def)
next
  case (StreamEnd k)
  then show ?thesis using assms by (simp add: handle_def streamEnd_def)
qed (use assms in \<open>simp_all add: handle_def onresult_def
      onend_def onerror_def toggleTts_def toggleTheme_def toggleVoiceGender_def handleCopy_def
      handleReadAloud_def startTicTacToe_def startChess_def split: option.split\<close>)

lemma run_not_both:
  assumes "\<not> (isLoading s \<and> isListening s)"
  shows "\<not> (isLoading (run E s es) \<and> isListening (run E s es))"
  using assms
proof (induction es arbitrary: s)
  case Nil
  then show ?case by (simp add: run_def)
next
  case (Cons e es)
  have "\<not> (isLoading (step E s e) \<and> isListening (step E s e))"
    using Cons.prems handle_not_both[of s E e] by (simp add: step_def)
  from Cons.IH[OF this] show ?case by (simp add: run_def)
qed

lemma handlers_not_both:
  assumes "\<not> (isLoading s \<and> isListening s)"
  shows "\<not> (isLoading (foldl (handle E) s es) \<and> isListening (foldl (handle E) s es))"
  using assms
proof (induction es arbitrary: s)
  case Nil
  then show ?case by simp
next
  case (Cons e es)
  from Cons.IH[OF handle_not_both[OF Cons.prems, of E e]] show ?case by simp
qed

text \<open>
  C4, as the claim states it, fails. Submitting a message and then starting a game from
  the game centre, which stays available, gives a state that is sending and has a game
  active; starting capture and then a game gives one that is listening and has a game
  active.
\<close>

theorem exclusivity_counterexample:
  "\<not> atMostOneActive (run miniEngine (mounted True True [])
        [InputChange ''hi'', FormSubmit 5, GameCenterClick, TicTacToeClick])
   \<and> \<not> atMostOneActive (run miniEngine (mounted True True [])
        [MicClick, GameCenterClick, TicTacToeClick])"
  by code_simp

text \<open>
  C4, amended. In every state reached from the mounted component, sending and listening
  are never active together, so at most two of sending, listening and game-active hold
  at once; a game can be active together with either of the other two.
\<close>

theorem sending_excludes_listening:
  "\<not> (isLoading (run E (mounted chatOk recognitionOk vs) es)
        \<and> isListening (run E (mounted chatOk recognitionOk vs) es))
   \<and> \<not> (isLoading (foldl (handle E) (mounted chatOk recognitionOk vs) es)
        \<and> isListening (foldl (handle E) (mounted chatOk recognitionOk vs) es))
   \<and> activeMembers (run E (mounted chatOk recognitionOk vs) es) \<le> 2"
proof -
  have m: "\<not> (isLoading (mounted chatOk recognitionOk vs :: 'a state)
      \<and> isListening (mounted chatOk recognitionOk vs :: 'a state))"
    by (simp add: mounted_def)
  have a: "\<not> (isLoading (run E (mounted chatOk recognitionOk vs) es)
        \<and> isListening (run E (mounted chatOk recognitionOk vs) es))"
    by (rule run_not_both[OF m])
  have b: "\<not> (isLoading (foldl (handle E) (mounted chatOk recognitionOk vs) es)
        \<and> isListening (foldl (handle E) (mounted chatOk recognitionOk vs) es))"
    by (rule handlers_not_both[OF m])
  from a have "activeMembers (run E (mounted chatOk recognitionOk vs) es) \<le> 2"
    by (auto simp: activeMembers_def)
  with a b show ?thesis by blast
qed

theorem sending_excludes_listening_witness:
  "isLoading (run miniEngine (mounted True True [])
      [InputChange ''hi'', FormSubmit 5, MicClick])
   \<and> \<not> isListening (run miniEngine (mounted True True [])
      [InputChange ''hi'', FormSubmit 5, MicClick])
   \<and> activeMembers (run miniEngine (mounted True True [])
      [InputChange ''hi'', FormSubmit 5, GameCenterClick, TicTacToeClick]) = 2"
proof -
  have l: "isLoading (run miniEngine (mounted True True [])
      [InputChange ''hi'', FormSubmit 5, MicClick])"
    by code_simp
  have g: "activeMembers (run miniEngine (mounted True True [])
      [InputChange ''hi'', FormSubmit 5, GameCenterClick, TicTacToeClick]) = 2"
    by code_simp
  from sending_excludes_listening[of miniEngine True True "[]"
      "[InputChange ''hi'', FormSubmit 5, MicClick]"] l g
  show ?thesis by simp
qed

text \<open>
  C5, as the claim states it, fails for the start of a game. With a reply in flight and the
  game centre open, choosing tic-tac-toe changes the state: the game becomes active.
\<close>

theorem sending_start_game_counterexample:
  "isLoading (run miniEngine (mounted True True []) [InputChange ''hi'', FormSubmit 5, GameCenterClick])
   \<and> step miniEngine
        (run miniEngine (mounted True True []) [InputChange ''hi'', FormSubmit 5, GameCenterClick])
        TicTacToeClick
      \<noteq> run miniEngine (mounted True True []) [InputChange ''hi'', FormSubmit 5, GameCenterClick]
   \<and> activeGame (step miniEngine
        (run miniEngine (mounted True True []) [InputChange ''hi'', FormSubmit 5, GameCenterClick])
        TicTacToeClick) = TicTacToe"
  by code_simp

text \<open>
  C5, amended. While a reply is in flight, the microphone handler is a no-op: the state
  is unchanged, so no capture session starts. The start of a game is not held back:
  the game centre opens, and choosing a game there makes it the active game and
  appends its two opening entries while the reply stays in flight.
\<close>

theorem sending_blocks_capture_only:
  "isLoading s \<longrightarrow>
     handleListenClick s = s \<and> step E s MicClick = s
     \<and> isGameModalOpen (step E s GameCenterClick)
     \<and> (isGameModalOpen s \<longrightarrow>
          step E s TicTacToeClick = startTicTacToe s \<and> step E s ChessClick = startChess E s)
     \<and> activeGame (startTicTacToe s) = TicTacToe \<and> isLoading (startTicTacToe s)
     \<and> length (history (startTicTacToe s)) = length (history s) + 2
     \<and> activeGame (startChess E s) = Chess \<and> isLoading (startChess E s)
     \<and> chessRef (startChess E s) = Some (newGame E)
     \<and> length (history (startChess E s)) = length (history s) + 2"
proof
  assume l: "isLoading s"
  have mic: "handleListenClick s = s"
    using l by (simp add: handleListenClick_def)
  have micStep: "step E s MicClick = s"
    by (simp add: step_def handle_def mic)
  have centre: "isGameModalOpen (step E s GameCenterClick)"
    by (simp add: step_def enabled_def handle_def)
  have choose: "isGameModalOpen s \<longrightarrow>
      step E s TicTacToeClick = startTicTacToe s \<and> step E s ChessClick = startChess E s"
    by (simp add: step_def enabled_def handle_def)
  have ttt: "activeGame (startTicTacToe s) = TicTacToe" "isLoading (startTicTacToe s)"
    "length (history (startTicTacToe s)) = length (history s) + 2"
    using l by (simp_all add: startTicTacToe_def append_def)
  have chess: "activeGame (startChess E s) = Chess" "isLoading (startChess E s)"
    "chessRef (startChess E s) = Some (newGame E)"
    "length (history (startChess E s)) = length (history s) + 2"
    using l by (simp_all add: startChess_def append_def)
  from mic micStep centre choose ttt chess
  show "handleListenClick s = s \<and> step E s MicClick = s
     \<and> isGameModalOpen (step E s GameCenterClick)
     \<and> (isGameModalOpen s \<longrightarrow>
          step E s TicTacToeClick = startTicTacToe s \<and> step E s ChessClick = startChess E s)
     \<and> activeGame (startTicTacToe s) = TicTacToe \<and> isLoading (startTicTacToe s)
     \<and> length (history (startTicTacToe s)) = length (history s) + 2
     \<and> activeGame (startChess E s) = Chess \<and> isLoading (startChess E s)
     \<and> chessRef (startChess E s) = Some (newGame E)
     \<and> length (history (startChess E s)) = length (history s) + 2"
    by blast
qed

theorem sending_blocks_capture_only_witness:
  "captureStarts (step miniEngine replyPending MicClick) = 0
   \<and> \<not> isListening (step miniEngine replyPending MicClick)
   \<and> activeGame (step miniEngine (step miniEngine replyPending GameCenterClick) TicTacToeClick) = TicTacToe
   \<and> isLoading (step miniEngine (step miniEngine replyPending GameCenterClick) TicTacToeClick)"
proof -
  have l: "isLoading replyPending" "captureStarts replyPending = 0" "\<not> isListening replyPending"
    by code_simp+
  have l': "isLoading (step miniEngine replyPending GameCenterClick)"
    "isGameModalOpen (step miniEngine replyPending GameCenterClick)"
    by code_simp+
  from sending_blocks_capture_only[of replyPending miniEngine]
    sending_blocks_capture_only[of "step miniEngine replyPending GameCenterClick" miniEngine] l l'
  show ?thesis by simp
qed

section \<open>The streamed reply\<close>

lemma history_streamChunk:
  "k < length (streams s) \<Longrightarrow>
     history (streamChunk k c s) = map (addChunk (s_id (streams s ! k)) c) (history s)"
  by (simp add: streamChunk_def Let_def)

lemma history_streamFail:
  "k < length (streams s) \<Longrightarrow>
     history (streamFail k s) = map (setText (s_id (streams s ! k)) apology) (history s)"
  by (simp add: streamFail_def)

text \<open>
  C2, as the claim states it, fails. In \<open>gameMidReply\<close> the pending entry of the
  assistant is at position 2 and two entries of the game follow it, so it is no longer
  the last entry. A chunk delivered to its stream is not dropped: the text of the
  entry changes from the empty string to the chunk.
\<close>

theorem stale_chunk_counterexample:
  "length (history gameMidReply) = 5
   \<and> mid (history gameMidReply ! 2) = s_id (streams gameMidReply ! 0)
   \<and> text (history gameMidReply ! 2) = Some []
   \<and> text (history (step miniEngine gameMidReply (StreamChunk 0 ''abc'')) ! 2) = Some ''abc''"
  by code_simp

text \<open>
  C2, amended. A chunk delivered to a stream is appended to the text of every entry whose
  id is the id of the stream, wherever the entry stands in the history; every entry with
  another id, so every entry appended later by another handler, is left as it is. In
  the earlier variant of the component the chunk goes to the last entry when that entry
  is the assistant's and is dropped when it is the user's.
\<close>

theorem chunk_goes_to_id:
  "(k < length (streams s) \<longrightarrow>
     length (history (streamChunk k c s)) = length (history s)
     \<and> (\<forall>i < length (history s).
          (mid (history s ! i) = s_id (streams s ! k) \<longrightarrow>
             history (streamChunk k c s) ! i =
               (history s ! i)\<lparr>text := Some ((case text (history s ! i) of None \<Rightarrow> [] | Some t \<Rightarrow> t) @ c)\<rparr>)
          \<and> (mid (history s ! i) \<noteq> s_id (streams s ! k) \<longrightarrow>
             history (streamChunk k c s) ! i = history s ! i)))
   \<and> appendToLast c (prev @ [m]) =
         (if p_role m = Model then prev @ [m\<lparr>p_text := p_text m @ c\<rparr>] else prev @ [m])"
proof (intro conjI impI allI)
  fix i
  assume k: "k < length (streams s)" and i: "i < length (history s)"
  have at: "history (streamChunk k c s) ! i = addChunk (s_id (streams s ! k)) c (history s ! i)"
    using i by (simp add: history_streamChunk[OF k])
  {
    assume "mid (history s ! i) = s_id (streams s ! k)"
    then show "history (streamChunk k c s) ! i =
        (history s ! i)\<lparr>text := Some ((case text (history s ! i) of None \<Rightarrow> [] | Some t \<Rightarrow> t) @ c)\<rparr>"
      by (simp add: at addChunk_def)
  }
  {
    assume "mid (history s ! i) \<noteq> s_id (streams s ! k)"
    then show "history (streamChunk k c s) ! i = history s ! i"
      by (simp add: at addChunk_def)
  }
next
  assume k: "k < length (streams s)"
  show "length (history (streamChunk k c s)) = length (history s)"
    by (simp add: history_streamChunk[OF k])
next
  show "appendToLast c (prev @ [m]) =
      (if p_role m = Model then prev @ [m\<lparr>p_text := p_text m @ c\<rparr>] else prev @ [m])"
    by (simp add: appendToLast_def)
qed

theorem chunk_goes_to_id_witness:
  "history (streamChunk 0 ''abc'' gameMidReply) ! 2 = textEntry (''model-'', 5) Model ''abc''
   \<and> history (streamChunk 0 ''abc'' gameMidReply) ! 4 = history gameMidReply ! 4
   \<and> history (streamChunk 0 ''abc'' gameMidReply) ! 3 = history gameMidReply ! 3"
proof -
  have a: "0 < length (streams gameMidReply)" "length (history gameMidReply) = 5"
    "s_id (streams gameMidReply ! 0) = (''model-'', 5)"
    "history gameMidReply ! 2 = textEntry (''model-'', 5) Model []"
    "mid (history gameMidReply ! 3) = (''game-start-'', 1)"
    "mid (history gameMidReply ! 4) = (''game-board-'', 1)"
    by code_simp+
  from chunk_goes_to_id[of 0 gameMidReply "''abc''"] a
  show ?thesis by (simp add: textEntry_def)
qed

lemma blank_no_break_space: "blank [CHR 0xC2, CHR 0xA0]"
  by simp

lemma appendToLast_chunks:
  "foldl (\<lambda>h c. appendToLast c h) (xs @ [\<lparr>p_role = Model, p_text = x\<rparr>]) cs
     = xs @ [\<lparr>p_role = Model, p_text = x @ concat cs\<rparr>]"
  by (induction cs arbitrary: x) (simp_all add: appendToLast_def)

lemma replaceLast_snoc: "replaceLast e (xs @ [m]) = xs @ [e]"
  by (simp add: replaceLast_def)

lemma legacy_failure:
  "catchUpdate (foldl (\<lambda>h c. appendToLast c h) (submitEntries t prev) cs)
     = prev @ [\<lparr>p_role = User, p_text = t\<rparr>, \<lparr>p_role = Model, p_text = apology\<rparr>]"
proof -
  have "foldl (\<lambda>h c. appendToLast c h) (submitEntries t prev) cs
      = (prev @ [\<lparr>p_role = User, p_text = t\<rparr>]) @ [\<lparr>p_role = Model, p_text = [] @ concat cs\<rparr>]"
    unfolding submitEntries_def by (rule appendToLast_chunks)
  then have "catchUpdate (foldl (\<lambda>h c. appendToLast c h) (submitEntries t prev) cs)
      = (prev @ [\<lparr>p_role = User, p_text = t\<rparr>]) @ [\<lparr>p_role = Model, p_text = apology\<rparr>]"
    by (simp only: catchUpdate_def replaceLast_snoc)
  then show ?thesis by simp
qed

lemma streamChunk_stream:
  assumes "k < length (streams s)"
  shows "k < length (streams (streamChunk k c s))"
    and "s_id (streams (streamChunk k c s) ! k) = s_id (streams s ! k)"
  using assms by (simp_all add: streamChunk_def Let_def)

lemma frames_streamChunk: "map frame (history (streamChunk k c s)) = map frame (history s)"
  by (simp add: streamChunk_def Let_def frame_addChunk)

lemma deliver_keeps:
  assumes "k < length (streams s)"
  shows "k < length (streams (deliver k cs s))
    \<and> s_id (streams (deliver k cs s) ! k) = s_id (streams s ! k)
    \<and> map frame (history (deliver k cs s)) = map frame (history s)"
  using assms
proof (induction cs arbitrary: s)
  case Nil
  then show ?case by (simp add: deliver_def)
next
  case (Cons c cs)
  note k' = streamChunk_stream[OF Cons.prems, of c]
  from Cons.IH[OF k'(1)] k'(2) frames_streamChunk[of k c s]
  show ?case by (simp add: deliver_def)
qed

lemma setText_frame:
  assumes "frame m = (i, r, None)"
  shows "setText i t m = textEntry i r t"
  using assms by (cases m) (simp add: frame_def setText_def textEntry_def)

lemma failure_after_chunks:
  assumes "\<not> blank (userInput s)" "\<not> isLoading s" "chatRef s"
  shows "history (streamFail (length (streams s)) (deliver (length (streams s)) cs (handleSubmit now s)))
      ! (length (history s) + 1) = textEntry (''model-'', now) Model apology"
    and "length (history (streamFail (length (streams s)) (deliver (length (streams s)) cs (handleSubmit now s))))
      = length (history s) + 2"
proof -
  let ?k = "length (streams s)"
  let ?s1 = "handleSubmit now s"
  let ?s2 = "deliver ?k cs ?s1"
  have h1: "history ?s1 = history s @ [textEntry (''user-'', now) User (userInput s),
      textEntry (''model-'', now) Model []]"
    and st1: "streams ?s1 = streams s @ [\<lparr>s_id = (''model-'', now), s_full = [],
      s_tts = isTtsEnabled s, s_voices = voices s\<rparr>]"
    using assms by (simp_all add: handleSubmit_def Let_def append_def)
  have k1: "?k < length (streams ?s1)" and id1: "s_id (streams ?s1 ! ?k) = (''model-'', now)"
    by (simp_all add: st1)
  from deliver_keeps[OF k1, of cs] id1
  have k2: "?k < length (streams ?s2)" and id2: "s_id (streams ?s2 ! ?k) = (''model-'', now)"
    and fr: "map frame (history ?s2) = map frame (history ?s1)"
    by simp_all
  have len: "length (history ?s2) = length (history s) + 2"
    using arg_cong[OF fr, of length] by (simp add: h1)
  have "frame (history ?s2 ! (length (history s) + 1)) = map frame (history ?s1) ! (length (history s) + 1)"
    using len by (simp add: fr[symmetric])
  also have "\<dots> = ((''model-'', now), Model, None)"
    by (simp add: h1 nth_append frame_def textEntry_def)
  finally have f: "frame (history ?s2 ! (length (history s) + 1)) = ((''model-'', now), Model, None)" .
  have e: "setText (''model-'', now) apology (history ?s2 ! (length (history s) + 1))
      = textEntry (''model-'', now) Model apology"
    by (rule setText_frame[OF f])
  show "history (streamFail ?k ?s2) ! (length (history s) + 1) = textEntry (''model-'', now) Model apology"
    using len e by (simp add: history_streamFail[OF k2] id2)
  show "length (history (streamFail ?k ?s2)) = length (history s) + 2"
    by (simp add: history_streamFail[OF k2] len)
qed

text \<open>
  C7. When the transport fails, whatever the reply has accumulated so far, every entry
  with the id of the stream gets the fixed apology as its whole text and no other entry
  changes; the stream is gone and \<open>isLoading\<close> is off, so that the next submission
  with an input that \<open>trim\<close> does not empty is accepted: it appends the entry of the user
  and a new pending entry and turns \<open>isLoading\<close> on again. After an accepted submission
  and any chunks, the failure leaves the two entries of the submission, the second with
  the apology alone. In the earlier variant, after the same steps, the history is the
  earlier one followed by the entry of the user and the apology entry.
\<close>

theorem failure_replaces_reply:
  "(k < length (streams s) \<longrightarrow>
     length (history (streamFail k s)) = length (history s)
     \<and> (\<forall>i < length (history s).
          (mid (history s ! i) = s_id (streams s ! k) \<longrightarrow>
             history (streamFail k s) ! i = (history s ! i)\<lparr>text := Some ''Apologies, Srabon. I seem to be having some trouble connecting to the network.''\<rparr>)
          \<and> (mid (history s ! i) \<noteq> s_id (streams s ! k) \<longrightarrow>
             history (streamFail k s) ! i = history s ! i))
     \<and> \<not> isLoading (streamFail k s)
     \<and> length (streams (streamFail k s)) + 1 = length (streams s)
     \<and> (chatRef s \<and> \<not> blank t \<longrightarrow>
          isLoading (handleSubmit now ((streamFail k s)\<lparr>userInput := t\<rparr>))
          \<and> history (handleSubmit now ((streamFail k s)\<lparr>userInput := t\<rparr>)) =
              history (streamFail k s) @
                [textEntry (''user-'', now) User t, textEntry (''model-'', now) Model []]))
   \<and> (\<not> blank (userInput s) \<and> \<not> isLoading s \<and> chatRef s \<longrightarrow>
        length (history (streamFail (length (streams s)) (deliver (length (streams s)) cs (handleSubmit now s))))
          = length (history s) + 2
        \<and> history (streamFail (length (streams s)) (deliver (length (streams s)) cs (handleSubmit now s)))
            ! (length (history s) + 1)
          = textEntry (''model-'', now) Model ''Apologies, Srabon. I seem to be having some trouble connecting to the network.'')
   \<and> catchUpdate (foldl (\<lambda>h c. appendToLast c h) (submitEntries t prev) cs)
       = prev @ [\<lparr>p_role = User, p_text = t\<rparr>, \<lparr>p_role = Model, p_text = ''Apologies, Srabon. I seem to be having some trouble connecting to the network.''\<rparr>]"
proof (intro impI conjI)
  assume k: "k < length (streams s)"
  show "length (history (streamFail k s)) = length (history s)"
    by (simp add: history_streamFail[OF k])
  show "\<forall>i < length (history s).
          (mid (history s ! i) = s_id (streams s ! k) \<longrightarrow>
             history (streamFail k s) ! i = (history s ! i)\<lparr>text := Some ''Apologies, Srabon. I seem to be having some trouble connecting to the network.''\<rparr>)
          \<and> (mid (history s ! i) \<noteq> s_id (streams s ! k) \<longrightarrow>
             history (streamFail k s) ! i = history s ! i)"
    by (simp add: history_streamFail[OF k] setText_def apology_def)
  show "\<not> isLoading (streamFail k s)"
    using k by (simp add: streamFail_def)
  show "length (streams (streamFail k s)) + 1 = length (streams s)"
    using k by (auto simp: streamFail_def finish_def Let_def speak_def)
  have f: "\<not> isLoading (streamFail k s)" "chatRef (streamFail k s) = chatRef s"
    using k by (simp_all add: streamFail_def finish_def Let_def speak_def)
  {
    assume "chatRef s \<and> \<not> blank t"
    with f show "isLoading (handleSubmit now ((streamFail k s)\<lparr>userInput := t\<rparr>))"
      by (simp add: handleSubmit_def Let_def)
  }
  {
    assume "chatRef s \<and> \<not> blank t"
    with f show "history (handleSubmit now ((streamFail k s)\<lparr>userInput := t\<rparr>)) =
              history (streamFail k s) @
                [textEntry (''user-'', now) User t, textEntry (''model-'', now) Model []]"
      by (simp add: handleSubmit_def Let_def append_def)
  }
next
  assume a: "\<not> blank (userInput s) \<and> \<not> isLoading s \<and> chatRef s"
  then have e: "\<not> blank (userInput s)" "\<not> isLoading s" "chatRef s"
    by simp_all
  show "length (history (streamFail (length (streams s)) (deliver (length (streams s)) cs (handleSubmit now s))))
          = length (history s) + 2"
    by (rule failure_after_chunks(2)[OF e])
  show "history (streamFail (length (streams s)) (deliver (length (streams s)) cs (handleSubmit now s)))
            ! (length (history s) + 1)
          = textEntry (''model-'', now) Model ''Apologies, Srabon. I seem to be having some trouble connecting to the network.''"
    using failure_after_chunks(1)[OF e, of cs now] by (simp add: apology_def)
next
  show "catchUpdate (foldl (\<lambda>h c. appendToLast c h) (submitEntries t prev) cs)
       = prev @ [\<lparr>p_role = User, p_text = t\<rparr>, \<lparr>p_role = Model, p_text = ''Apologies, Srabon. I seem to be having some trouble connecting to the network.''\<rparr>]"
    using legacy_failure[of t prev cs] by (simp add: apology_def)
qed

theorem failure_replaces_reply_witness:
  "text (history partialReply ! 2) = Some ''Hello, ''
   \<and> history (streamFail 0 partialReply) ! 2 = textEntry (''model-'', 5) Model ''Apologies, Srabon. I seem to be having some trouble connecting to the network.''
   \<and> \<not> isLoading (streamFail 0 partialReply)
   \<and> isLoading (handleSubmit 9 ((streamFail 0 partialReply)\<lparr>userInput := ''again''\<rparr>))
   \<and> length (history (handleSubmit 9 ((streamFail 0 partialReply)\<lparr>userInput := ''again''\<rparr>))) = 5
   \<and> length (history (streamFail 0 (deliver 0 [''Hel'', ''lo, ''] (handleSubmit 5 inputTyped)))) = 3
   \<and> history (streamFail 0 (deliver 0 [''Hel'', ''lo, ''] (handleSubmit 5 inputTyped))) ! 2
       = textEntry (''model-'', 5) Model ''Apologies, Srabon. I seem to be having some trouble connecting to the network.''"
proof -
  have a: "0 < length (streams partialReply)" "length (history partialReply) = 3"
    "s_id (streams partialReply ! 0) = (''model-'', 5)"
    "history partialReply ! 2 = textEntry (''model-'', 5) Model ''Hello, ''"
    "chatRef partialReply" "\<not> blank ''again''"
    by code_simp+
  have b: "\<not> blank (userInput inputTyped) \<and> \<not> isLoading inputTyped \<and> chatRef inputTyped"
    and l: "length (streams inputTyped) = 0" "length (history inputTyped) = 1"
    by code_simp+
  note t1 = failure_replaces_reply[where k = 0 and s = partialReply and t = "''again''" and now = 9,
      THEN conjunct1]
  note t2 = failure_replaces_reply[where s = inputTyped and now = 5 and cs = "[''Hel'', ''lo, '']",
      THEN conjunct2, THEN conjunct1, THEN mp, OF b]
  from t2 have n: "length (history (streamFail 0 (deliver 0 [''Hel'', ''lo, ''] (handleSubmit 5 inputTyped)))) = 3"
    and e: "history (streamFail 0 (deliver 0 [''Hel'', ''lo, ''] (handleSubmit 5 inputTyped))) ! 2
      = textEntry (''model-'', 5) Model ''Apologies, Srabon. I seem to be having some trouble connecting to the network.''"
    by (simp_all add: l eval_nat_numeral)
  from t1 a have
    "history (streamFail 0 partialReply) ! 2 = textEntry (''model-'', 5) Model ''Apologies, Srabon. I seem to be having some trouble connecting to the network.''
     \<and> \<not> isLoading (streamFail 0 partialReply)
     \<and> isLoading (handleSubmit 9 ((streamFail 0 partialReply)\<lparr>userInput := ''again''\<rparr>))
     \<and> length (history (handleSubmit 9 ((streamFail 0 partialReply)\<lparr>userInput := ''again''\<rparr>))) = 5"
    by (simp add: textEntry_def)
  with a(4) n e show ?thesis by (simp add: textEntry_def)
qed

section \<open>Forfeiting a game\<close>

lemma handleAiMove_grows: "length (history s) < length (history (handleAiMove t rnd b s))"
  by (simp add: handleAiMove_def Let_def split: option.split)

text \<open>
  C3, as the claim states it, fails for the timers. In \<open>forfeited\<close> the player has moved,
  which has set the timer of the opponent's move, and has then forfeited. When the
  timer fires, it appends a board entry. In the chess game the timer that fires after the
  forfeit plays a move on the engine and appends its entries. And a game started while
  a reply was in flight leaves, when it is forfeited, a state that is still sending.
\<close>

theorem forfeit_timer_counterexample:
  "activeGame forfeited = NoGame
   \<and> timers forfeited = [AiMove [[Some MarkX, None, None], [None, None, None], [None, None, None]]]
   \<and> length (history forfeited) = 5
   \<and> length (history (step miniEngine forfeited (TimerFire 9 0))) = 6
   \<and> activeGame forfeitedChess = NoGame
   \<and> timers forfeitedChess = [AiChessMove]
   \<and> chessRef forfeitedChess = Some 1
   \<and> chessRef (step miniEngine forfeitedChess (TimerFire 9 0)) = Some 2
   \<and> length (history (step miniEngine forfeitedChess (TimerFire 9 0))) = Suc (length (history forfeitedChess))
   \<and> activeGame (step miniEngine gameMidReply (ForfeitClick 8)) = NoGame
   \<and> isLoading (step miniEngine gameMidReply (ForfeitClick 8))"
  by code_simp

text \<open>
  C3, amended. The forfeit button runs \<open>endGame\<close>: the active game is \<open>none\<close> at
  once, exactly one entry, the concluding narration, is appended, and sending and
  listening are as they were. The timer queue and the chess engine are untouched: a timer
  of a tic-tac-toe move set before the forfeit still runs \<open>handleAiMove\<close> when it
  fires, and appends at least the board entry.
\<close>

theorem forfeit_keeps_timers:
  "activeGame s \<noteq> NoGame \<longrightarrow>
     step E s (ForfeitClick now) = endGame now s
     \<and> activeGame (endGame now s) = NoGame
     \<and> history (endGame now s) = history s @ [textEntry (''game-end-'', now) Model concluded]
     \<and> timers (endGame now s) = timers s
     \<and> chessRef (endGame now s) = chessRef s
     \<and> isLoading (endGame now s) = isLoading s
     \<and> isListening (endGame now s) = isListening s
     \<and> (timers s = AiMove b # ts \<longrightarrow>
          step E (endGame now s) (TimerFire t rnd) = handleAiMove t rnd b ((endGame now s)\<lparr>timers := ts\<rparr>)
          \<and> length (history (endGame now s)) < length (history (step E (endGame now s) (TimerFire t rnd))))"
proof (intro impI conjI)
  assume g: "activeGame s \<noteq> NoGame"
  show "step E s (ForfeitClick now) = endGame now s"
    using g by (simp add: step_def enabled_def handle_def)
  show "activeGame (endGame now s) = NoGame" "timers (endGame now s) = timers s"
    "chessRef (endGame now s) = chessRef s"
    by (simp_all add: endGame_def append_def)
  show "history (endGame now s) = history s @ [textEntry (''game-end-'', now) Model concluded]"
    "isLoading (endGame now s) = isLoading s" "isListening (endGame now s) = isListening s"
    by simp_all
  assume t: "timers s = AiMove b # ts"
  then have tt: "timers (endGame now s) = AiMove b # ts"
    by (simp add: endGame_def append_def)
  show st: "step E (endGame now s) (TimerFire t rnd) = handleAiMove t rnd b ((endGame now s)\<lparr>timers := ts\<rparr>)"
    by (simp add: step_def enabled_def handle_def tt)
  show "length (history (endGame now s)) < length (history (step E (endGame now s) (TimerFire t rnd)))"
    unfolding st using handleAiMove_grows[of "(endGame now s)\<lparr>timers := ts\<rparr>" t rnd b] by simp
qed

theorem forfeit_keeps_timers_witness:
  "activeGame (step miniEngine playerHasMoved (ForfeitClick 8)) = NoGame
   \<and> length (history (step miniEngine playerHasMoved (ForfeitClick 8))) = Suc (length (history playerHasMoved))
   \<and> timers (step miniEngine playerHasMoved (ForfeitClick 8)) = timers playerHasMoved
   \<and> length (history (endGame 8 playerHasMoved))
       < length (history (step miniEngine (endGame 8 playerHasMoved) (TimerFire 9 0)))"
proof -
  have a: "activeGame playerHasMoved \<noteq> NoGame"
    "timers playerHasMoved = AiMove [[Some MarkX, None, None], [None, None, None], [None, None, None]] # []"
    by code_simp+
  from forfeit_keeps_timers[of playerHasMoved miniEngine 8
      "[[Some MarkX, None, None], [None, None, None], [None, None, None]]" "[]" 9 0] a
  show ?thesis by auto
qed

section \<open>Moves of the player\<close>

text \<open>
  C6, as the claim states it, fails for tic-tac-toe. In \<open>aiHasMoved\<close> both sides have
  moved once: the opening board at position 2 of the history has been superseded by
  the boards at positions 3 and 4, and on the latest board the cell (0,0) holds the mark
  of the player. The opening board is still shown with status \<open>playing\<close> and
  \<open>handlePlayerMove\<close> as its handler. A click on its cell (0,0) is accepted: an entry is
  appended and a timer for the opponent's move is set.
\<close>

theorem stale_board_counterexample:
  "widgetAt (history aiHasMoved) 2 = Some (TicTacToeBoard initialBoard ''playing'' HandlePlayerMove)
   \<and> widgetAt (history aiHasMoved) 4 =
       Some (TicTacToeBoard [[Some MarkX, Some MarkO, None], [None, None, None], [None, None, None]]
               ''playing'' HandlePlayerMove)
   \<and> length (history aiHasMoved) = 5
   \<and> timers aiHasMoved = []
   \<and> length (history (step miniEngine aiHasMoved (CellClick 2 0 0 9))) = 6
   \<and> timers (step miniEngine aiHasMoved (CellClick 2 0 0 9)) =
       [AiMove [[Some MarkX, None, None], [None, None, None], [None, None, None]]]"
  by code_simp

text \<open>
  C6, amended. \<open>handlePlayerMove\<close> checks the move against the board the clicked widget
  passes in, and against nothing else: on a cell that board has occupied, or a board
  that already has a winner or is full, it leaves the state as it is; on an empty cell of
  a board without winner it appends an entry, whatever the state and whatever boards
  were appended since. \<open>handlePlayerChessMove\<close> checks the move against the position of
  the engine: with no engine, a finished game or a move the engine rejects, it returns
  \<open>false\<close> and leaves the state as it is; otherwise the position of the engine is the
  one after the move and an entry is appended.
\<close>

theorem moves_checked_against_snapshot:
  "(cb ! r ! c \<noteq> None \<or> checkWinner cb \<noteq> None \<longrightarrow> handlePlayerMove now r c cb s = s)
   \<and> (cb ! r ! c = None \<and> checkWinner cb = None \<longrightarrow>
        length (history s) < length (history (handlePlayerMove now r c cb s)))
   \<and> (chessRef s = None \<longrightarrow> handlePlayerChessMove E now mv s = (False, s))
   \<and> (chessRef s = Some p \<and> (isGameOver E p \<or> move E p mv = None) \<longrightarrow>
        handlePlayerChessMove E now mv s = (False, s))
   \<and> (chessRef s = Some p \<and> \<not> isGameOver E p \<and> move E p mv = Some p' \<longrightarrow>
        fst (handlePlayerChessMove E now mv s)
        \<and> chessRef (snd (handlePlayerChessMove E now mv s)) = Some p'
        \<and> length (history s) < length (history (snd (handlePlayerChessMove E now mv s))))"
proof (intro conjI impI)
  assume "cb ! r ! c \<noteq> None \<or> checkWinner cb \<noteq> None"
  then show "handlePlayerMove now r c cb s = s"
    by (auto simp: handlePlayerMove_def)
next
  assume "cb ! r ! c = None \<and> checkWinner cb = None"
  then show "length (history s) < length (history (handlePlayerMove now r c cb s))"
    by (simp add: handlePlayerMove_def Let_def split: option.split)
next
  assume "chessRef s = None"
  then show "handlePlayerChessMove E now mv s = (False, s)"
    by (simp add: handlePlayerChessMove_def)
next
  assume "chessRef s = Some p \<and> (isGameOver E p \<or> move E p mv = None)"
  then show "handlePlayerChessMove E now mv s = (False, s)"
    by (auto simp: handlePlayerChessMove_def)
next
  assume a: "chessRef s = Some p \<and> \<not> isGameOver E p \<and> move E p mv = Some p'"
  then show "fst (handlePlayerChessMove E now mv s)"
    by (simp add: handlePlayerChessMove_def Let_def)
  from a show "chessRef (snd (handlePlayerChessMove E now mv s)) = Some p'"
    by (simp add: handlePlayerChessMove_def Let_def handleChessGameOver_def endGame_def append_def)
  from a show "length (history s) < length (history (snd (handlePlayerChessMove E now mv s)))"
    by (simp add: handlePlayerChessMove_def Let_def handleChessGameOver_def append_def)
qed

theorem moves_checked_against_snapshot_witness:
  "handlePlayerMove 9 0 0 [[Some MarkX, Some MarkO, None], [None, None, None], [None, None, None]] aiHasMoved
     = aiHasMoved
   \<and> length (history aiHasMoved) < length (history (handlePlayerMove 9 0 0 initialBoard aiHasMoved))
   \<and> handlePlayerChessMove miniEngine 9 (FromTo ''e2'' ''e4'') aiHasMoved = (False, aiHasMoved)
   \<and> handlePlayerChessMove miniEngine 9 (FromTo ''e2'' ''e2'') chessStarted = (False, chessStarted)
   \<and> chessRef (snd (handlePlayerChessMove miniEngine 9 (FromTo ''e2'' ''e4'') chessStarted)) = Some 1"
proof -
  let ?b = "[[Some MarkX, Some MarkO, None], [None, None, None], [None, None, None]]"
  have a: "?b ! 0 ! 0 \<noteq> None \<or> checkWinner ?b \<noteq> None"
    "initialBoard ! 0 ! 0 = None \<and> checkWinner initialBoard = None"
    "chessRef aiHasMoved = None"
    "chessRef chessStarted = Some 0 \<and> (isGameOver miniEngine 0 \<or> move miniEngine 0 (FromTo ''e2'' ''e2'') = None)"
    "chessRef chessStarted = Some 0 \<and> \<not> isGameOver miniEngine 0 \<and> move miniEngine 0 (FromTo ''e2'' ''e4'') = Some 1"
    by code_simp+
  note t1 = moves_checked_against_snapshot[where cb = ?b and r = 0 and c = 0 and now = 9
      and s = aiHasMoved, THEN conjunct1, THEN mp, OF a(1)]
  note t2 = moves_checked_against_snapshot[where cb = initialBoard and r = 0 and c = 0 and now = 9
      and s = aiHasMoved and E = miniEngine and mv = "FromTo ''e2'' ''e4''"]
  note t3 = moves_checked_against_snapshot[where now = 9 and s = chessStarted and p = 0 and E = miniEngine
      and mv = "FromTo ''e2'' ''e2''"]
  note t4 = moves_checked_against_snapshot[where now = 9 and s = chessStarted and p = 0 and E = miniEngine
      and mv = "FromTo ''e2'' ''e4''" and p' = 1]
  note c2 = t2[THEN conjunct2, THEN conjunct1, THEN mp, OF a(2)]
  note c3 = t2[THEN conjunct2, THEN conjunct2, THEN conjunct1, THEN mp, OF a(3)]
  note c4 = t3[THEN conjunct2, THEN conjunct2, THEN conjunct2, THEN conjunct1, THEN mp, OF a(4)]
  note c5 = t4[THEN conjunct2, THEN conjunct2, THEN conjunct2, THEN conjunct2, THEN mp, OF a(5)]
  from c5 have c5': "chessRef (snd (handlePlayerChessMove miniEngine 9 (FromTo ''e2'' ''e4'') chessStarted)) = Some 1"
    by (rule conjunct1[OF conjunct2])
  show ?thesis
    by (intro conjI) (rule t1 c2 c3 c4 c5')+
qed

section \<open>When a playback starts\<close>

lemma playbackLog_append [simp]: "playbackLog (append ms s) = playbackLog s"
  by (simp add: append_def)

lemma playbackLog_endGame [simp]: "playbackLog (endGame now s) = playbackLog s"
  by (simp add: endGame_def)

lemma playbackLog_handlePlayerMove [simp]:
  "playbackLog (handlePlayerMove now r c b s) = playbackLog s"
  by (simp add: handlePlayerMove_def Let_def split: option.split)

lemma playbackLog_handleAiMove [simp]:
  "playbackLog (handleAiMove now rnd b s) = playbackLog s"
  by (simp add: handleAiMove_def Let_def split: option.split)

lemma playbackLog_handleChessGameOver [simp]:
  "playbackLog (handleChessGameOver E now s) = playbackLog s"
  by (simp add: handleChessGameOver_def split: option.split)

lemma playbackLog_handlePlayerChessMove [simp]:
  "playbackLog (snd (handlePlayerChessMove E now mv s)) = playbackLog s"
  by (simp add: handlePlayerChessMove_def Let_def split: option.split)

lemma playbackLog_handleAiChessMove [simp]:
  "playbackLog (handleAiChessMove E now rnd s) = playbackLog s"
  by (simp add: handleAiChessMove_def Let_def split: option.split)

lemma playbackLog_handleSubmit [simp]: "playbackLog (handleSubmit now s) = playbackLog s"
  by (simp add: handleSubmit_def Let_def)






section \<open>The natural end of a game\<close>

lemma handleAiMove_terminal:
  assumes "checkWinner (aiBoard rnd cb) = Some w"
  shows "handleAiMove now rnd cb s =
    (s\<lparr>activeGame := NoGame,
       history := history s @
         [widgetEntry (''game-board-'', now) Model
            (TicTacToeBoard (aiBoard rnd cb) ''finished'' HandlePlayerMove),
          textEntry (''game-end-msg-'', now) Model (aiEndMessage w),
          textEntry (''game-end-'', now) Model concluded]\<rparr>)"
  using assms by (simp add: handleAiMove_def Let_def endGame_def append_def)

lemma handlePlayerChessMove_terminal:
  assumes "chessRef s = Some p" "\<not> isGameOver E p" "move E p mv = Some p'" "isGameOver E p'"
  shows "snd (handlePlayerChessMove E now mv s) =
    (s\<lparr>chessRef := Some p', activeGame := NoGame,
       history := history s @
         [widgetEntry (''game-board-chess-user-'', now) User (ChessBoard (fen E p') AlwaysFalse),
          textEntry (''game-end-msg-'', now) Model (chessEndMessage E p'),
          textEntry (''game-end-'', now) Model concluded]\<rparr>)"
  using assms
  by (simp add: handlePlayerChessMove_def Let_def handleChessGameOver_def endGame_def append_def)

lemma handleAiChessMove_terminal:
  assumes "chessRef s = Some p" "\<not> isGameOver E p" "moves E p \<noteq> []"
    "isGameOver E (aiPosition E rnd p)"
  shows "handleAiChessMove E now rnd s =
    (s\<lparr>chessRef := Some (aiPosition E rnd p), activeGame := NoGame,
       history := history s @
         (if inCheck E (aiPosition E rnd p) then [textEntry (''chess-check-'', now) Model ''Check.''] else []) @
         [widgetEntry (''game-board-chess-ai-'', now) Model
            (ChessBoard (fen E (aiPosition E rnd p)) HandlePlayerChessMove),
          textEntry (''game-end-msg-'', now) Model (chessEndMessage E (aiPosition E rnd p)),
          textEntry (''game-end-'', now) Model concluded]\<rparr>)"
  using assms
  by (simp add: handleAiChessMove_def Let_def handleChessGameOver_def endGame_def append_def)

lemma chessEndMessage_text:
  "chessEndMessage E q =
    (if isCheckmate E q then
       (if turn E q \<noteq> White then ''Checkmate. An impressive victory, Srabon.''
        else ''Checkmate. I have won this time, Srabon.'')
     else if isDraw E q then
       (if isStalemate E q then ''Stalemate. The game is a draw.''
        else if isThreefoldRepetition E q then ''Draw by threefold repetition.''
        else if isInsufficientMaterial E q then ''Draw due to insufficient material.''
        else ''The game is a draw.'')
     else ''The game is over.'')"
  by (simp add: chessEndMessage_def)

text \<open>
  C10. When a ply ends the game, of either kind and by either side, the handler appends
  the board of that ply (after the notice of check, if the opponent's chess move gives
  one) and then exactly two entries of the assistant that carry text and no widget. The
  first narrates the outcome: in tic-tac-toe the congratulation when the player has won,
  the opponent's announcement when the opponent has won, and the draw message on a draw;
  in chess the checkmate message for the side that has won, or else the message of the
  kind of draw. The second is the fixed concluding message. The active game is
  \<open>none\<close> afterwards.
\<close>

theorem natural_end_of_game:
  "(cb ! r ! c = None \<and> checkWinner cb = None \<and> checkWinner (place cb r c MarkX) = Some w
      \<and> (w = Winner MarkX \<or> w = Draw) \<longrightarrow>
      history (handlePlayerMove now r c cb s) =
        history s @
          [widgetEntry (''game-board-'', now) User (TicTacToeBoard (place cb r c MarkX) ''playing'' NoOpClick),
           textEntry (''game-end-msg-'', now) Model
             (if w = Winner MarkX then ''Congratulations, Srabon, you've won!''
              else ''A draw. A well-played game.''),
           textEntry (''game-end-'', now) Model ''Game concluded. I am ready for your next command, Srabon.'']
      \<and> activeGame (handlePlayerMove now r c cb s) = NoGame)
   \<and> (checkWinner (aiBoard rnd cb) = Some w \<and> (w = Winner MarkO \<or> w = Draw) \<longrightarrow>
      history (handleAiMove now rnd cb s) =
        history s @
          [widgetEntry (''game-board-'', now) Model (TicTacToeBoard (aiBoard rnd cb) ''finished'' HandlePlayerMove),
           textEntry (''game-end-msg-'', now) Model
             (if w = Winner MarkO then ''It appears I have won this round. Better luck next time, Srabon.''
              else ''A draw. A well-played game.''),
           textEntry (''game-end-'', now) Model ''Game concluded. I am ready for your next command, Srabon.'']
      \<and> activeGame (handleAiMove now rnd cb s) = NoGame)
   \<and> (chessRef s = Some p \<and> \<not> isGameOver E p \<and> move E p mv = Some p' \<and> isGameOver E p' \<longrightarrow>
      history (snd (handlePlayerChessMove E now mv s)) =
        history s @
          [widgetEntry (''game-board-chess-user-'', now) User (ChessBoard (fen E p') AlwaysFalse),
           textEntry (''game-end-msg-'', now) Model
             (if isCheckmate E p' then
                (if turn E p' \<noteq> White then ''Checkmate. An impressive victory, Srabon.''
                 else ''Checkmate. I have won this time, Srabon.'')
              else if isDraw E p' then
                (if isStalemate E p' then ''Stalemate. The game is a draw.''
                 else if isThreefoldRepetition E p' then ''Draw by threefold repetition.''
                 else if isInsufficientMaterial E p' then ''Draw due to insufficient material.''
                 else ''The game is a draw.'')
              else ''The game is over.''),
           textEntry (''game-end-'', now) Model ''Game concluded. I am ready for your next command, Srabon.'']
      \<and> activeGame (snd (handlePlayerChessMove E now mv s)) = NoGame)
   \<and> (chessRef s = Some p \<and> \<not> isGameOver E p \<and> moves E p \<noteq> [] \<and> isGameOver E (aiPosition E rnd p) \<longrightarrow>
      history (handleAiChessMove E now rnd s) =
        history s @
          (if inCheck E (aiPosition E rnd p) then [textEntry (''chess-check-'', now) Model ''Check.''] else []) @
          [widgetEntry (''game-board-chess-ai-'', now) Model
             (ChessBoard (fen E (aiPosition E rnd p)) HandlePlayerChessMove),
           textEntry (''game-end-msg-'', now) Model
             (if isCheckmate E (aiPosition E rnd p) then
                (if turn E (aiPosition E rnd p) \<noteq> White then ''Checkmate. An impressive victory, Srabon.''
                 else ''Checkmate. I have won this time, Srabon.'')
              else if isDraw E (aiPosition E rnd p) then
                (if isStalemate E (aiPosition E rnd p) then ''Stalemate. The game is a draw.''
                 else if isThreefoldRepetition E (aiPosition E rnd p) then ''Draw by threefold repetition.''
                 else if isInsufficientMaterial E (aiPosition E rnd p) then ''Draw due to insufficient material.''
                 else ''The game is a draw.'')
              else ''The game is over.''),
           textEntry (''game-end-'', now) Model ''Game concluded. I am ready for your next command, Srabon.'']
      \<and> activeGame (handleAiChessMove E now rnd s) = NoGame)"
proof (intro conjI impI)
  assume a: "cb ! r ! c = None \<and> checkWinner cb = None \<and> checkWinner (place cb r c MarkX) = Some w
      \<and> (w = Winner MarkX \<or> w = Draw)"
  then have e: "cb ! r ! c = None" "checkWinner cb = None" "checkWinner (place cb r c MarkX) = Some w"
    by simp_all
  show "history (handlePlayerMove now r c cb s) =
        history s @
          [widgetEntry (''game-board-'', now) User (TicTacToeBoard (place cb r c MarkX) ''playing'' NoOpClick),
           textEntry (''game-end-msg-'', now) Model
             (if w = Winner MarkX then ''Congratulations, Srabon, you've won!''
              else ''A draw. A well-played game.''),
           textEntry (''game-end-'', now) Model ''Game concluded. I am ready for your next command, Srabon.'']"
    by (simp add: handlePlayerMove_terminal[OF e] playerEndMessage_def concluded_def)
  show "activeGame (handlePlayerMove now r c cb s) = NoGame"
    by (simp add: handlePlayerMove_terminal[OF e])
next
  assume "checkWinner (aiBoard rnd cb) = Some w \<and> (w = Winner MarkO \<or> w = Draw)"
  then have a: "checkWinner (aiBoard rnd cb) = Some w"
    by simp
  show "history (handleAiMove now rnd cb s) =
        history s @
          [widgetEntry (''game-board-'', now) Model (TicTacToeBoard (aiBoard rnd cb) ''finished'' HandlePlayerMove),
           textEntry (''game-end-msg-'', now) Model
             (if w = Winner MarkO then ''It appears I have won this round. Better luck next time, Srabon.''
              else ''A draw. A well-played game.''),
           textEntry (''game-end-'', now) Model ''Game concluded. I am ready for your next command, Srabon.'']"
    by (simp add: handleAiMove_terminal[OF a] aiEndMessage_def concluded_def)
  show "activeGame (handleAiMove now rnd cb s) = NoGame"
    by (simp add: handleAiMove_terminal[OF a])
next
  assume a: "chessRef s = Some p \<and> \<not> isGameOver E p \<and> move E p mv = Some p' \<and> isGameOver E p'"
  then have e: "chessRef s = Some p" "\<not> isGameOver E p" "move E p mv = Some p'" "isGameOver E p'"
    by simp_all
  show "history (snd (handlePlayerChessMove E now mv s)) =
        history s @
          [widgetEntry (''game-board-chess-user-'', now) User (ChessBoard (fen E p') AlwaysFalse),
           textEntry (''game-end-msg-'', now) Model
             (if isCheckmate E p' then
                (if turn E p' \<noteq> White then ''Checkmate. An impressive victory, Srabon.''
                 else ''Checkmate. I have won this time, Srabon.'')
              else if isDraw E p' then
                (if isStalemate E p' then ''Stalemate. The game is a draw.''
                 else if isThreefoldRepetition E p' then ''Draw by threefold repetition.''
                 else if isInsufficientMaterial E p' then ''Draw due to insufficient material.''
                 else ''The game is a draw.'')
              else ''The game is over.''),
           textEntry (''game-end-'', now) Model ''Game concluded. I am ready for your next command, Srabon.'']"
    unfolding chessEndMessage_text[symmetric]
    by (simp add: handlePlayerChessMove_terminal[OF e] concluded_def)
  show "activeGame (snd (handlePlayerChessMove E now mv s)) = NoGame"
    by (simp add: handlePlayerChessMove_terminal[OF e])
next
  assume a: "chessRef s = Some p \<and> \<not> isGameOver E p \<and> moves E p \<noteq> [] \<and> isGameOver E (aiPosition E rnd p)"
  then have e: "chessRef s = Some p" "\<not> isGameOver E p" "moves E p \<noteq> []" "isGameOver E (aiPosition E rnd p)"
    by simp_all
  show "history (handleAiChessMove E now rnd s) =
        history s @
          (if inCheck E (aiPosition E rnd p) then [textEntry (''chess-check-'', now) Model ''Check.''] else []) @
          [widgetEntry (''game-board-chess-ai-'', now) Model
             (ChessBoard (fen E (aiPosition E rnd p)) HandlePlayerChessMove),
           textEntry (''game-end-msg-'', now) Model
             (if isCheckmate E (aiPosition E rnd p) then
                (if turn E (aiPosition E rnd p) \<noteq> White then ''Checkmate. An impressive victory, Srabon.''
                 else ''Checkmate. I have won this time, Srabon.'')
              else if isDraw E (aiPosition E rnd p) then
                (if isStalemate E (aiPosition E rnd p) then ''Stalemate. The game is a draw.''
                 else if isThreefoldRepetition E (aiPosition E rnd p) then ''Draw by threefold repetition.''
                 else if isInsufficientMaterial E (aiPosition E rnd p) then ''Draw due to insufficient material.''
                 else ''The game is a draw.'')
              else ''The game is over.''),
           textEntry (''game-end-'', now) Model ''Game concluded. I am ready for your next command, Srabon.'']"
    unfolding chessEndMessage_text[symmetric]
    by (simp add: handleAiChessMove_terminal[OF e] concluded_def)
  show "activeGame (handleAiChessMove E now rnd s) = NoGame"
    by (simp add: handleAiChessMove_terminal[OF e])
qed

theorem natural_end_of_game_witness:
  "map text (drop 1 (history (handlePlayerMove 7 2 2
       [[Some MarkX, None, None], [None, Some MarkX, None], [None, None, None]] (mounted True True [] :: nat state))))
     = [None, Some ''Congratulations, Srabon, you've won!'',
        Some ''Game concluded. I am ready for your next command, Srabon.'']
   \<and> map text (drop 1 (history (handlePlayerMove 7 2 2
       [[Some MarkX, Some MarkO, Some MarkX], [Some MarkX, Some MarkO, Some MarkO], [Some MarkO, Some MarkX, None]]
       (mounted True True [] :: nat state))))
     = [None, Some ''A draw. A well-played game.'',
        Some ''Game concluded. I am ready for your next command, Srabon.'']
   \<and> map text (drop 1 (history (handleAiMove 7 0
       [[Some MarkO, Some MarkO, None], [Some MarkX, Some MarkX, None], [None, None, Some MarkX]]
       (mounted True True [] :: nat state))))
     = [None, Some ''It appears I have won this round. Better luck next time, Srabon.'',
        Some ''Game concluded. I am ready for your next command, Srabon.'']
   \<and> map text (drop 1 (history (handleAiMove 7 0
       [[Some MarkX, Some MarkO, Some MarkX], [Some MarkX, Some MarkO, Some MarkO], [Some MarkO, Some MarkX, None]]
       (mounted True True [] :: nat state))))
     = [None, Some ''A draw. A well-played game.'',
        Some ''Game concluded. I am ready for your next command, Srabon.'']
   \<and> map text (drop 3 (history (snd (handlePlayerChessMove miniEngine 9 (FromTo ''h5'' ''f7'') chessStarted))))
     = [None, Some ''Checkmate. An impressive victory, Srabon.'',
        Some ''Game concluded. I am ready for your next command, Srabon.'']
   \<and> map text (drop 3 (history (snd (handlePlayerChessMove miniEngine 9 (FromTo ''g7'' ''h8'') chessStarted))))
     = [None, Some ''Stalemate. The game is a draw.'',
        Some ''Game concluded. I am ready for your next command, Srabon.'']
   \<and> activeGame (snd (handlePlayerChessMove miniEngine 9 (FromTo ''h5'' ''f7'') chessStarted)) = NoGame
   \<and> map text (drop 6 (history (handleAiChessMove miniEngine 10 0 lastPly)))
     = [Some ''Check.'', None, Some ''Checkmate. I have won this time, Srabon.'',
        Some ''Game concluded. I am ready for your next command, Srabon.'']
   \<and> activeGame (handleAiChessMove miniEngine 10 0 lastPly) = NoGame"
proof -
  let ?cb = "[[Some MarkX, None, None], [None, Some MarkX, None], [None, None, None]]"
  let ?db = "[[Some MarkX, Some MarkO, Some MarkX], [Some MarkX, Some MarkO, Some MarkO], [Some MarkO, Some MarkX, None]]"
  let ?ab = "[[Some MarkO, Some MarkO, None], [Some MarkX, Some MarkX, None], [None, None, Some MarkX]]"
  let ?m = "mounted True True [] :: nat state"
  have a1: "?cb ! 2 ! 2 = None \<and> checkWinner ?cb = None \<and> checkWinner (place ?cb 2 2 MarkX) = Some (Winner MarkX)
      \<and> (Winner MarkX = Winner MarkX \<or> Winner MarkX = Draw)"
    by code_simp
  have a1': "?db ! 2 ! 2 = None \<and> checkWinner ?db = None \<and> checkWinner (place ?db 2 2 MarkX) = Some Draw
      \<and> (Draw = Winner MarkX \<or> Draw = Draw)"
    by code_simp
  have a2: "checkWinner (aiBoard 0 ?ab) = Some (Winner MarkO) \<and> (Winner MarkO = Winner MarkO \<or> Winner MarkO = Draw)"
    by code_simp
  have a2': "checkWinner (aiBoard 0 ?db) = Some Draw \<and> (Draw = Winner MarkO \<or> Draw = Draw)"
    by code_simp
  have a3: "chessRef chessStarted = Some 0 \<and> \<not> isGameOver miniEngine 0
      \<and> move miniEngine 0 (FromTo ''h5'' ''f7'') = Some 11 \<and> isGameOver miniEngine 11"
    by code_simp
  have a3': "chessRef chessStarted = Some 0 \<and> \<not> isGameOver miniEngine 0
      \<and> move miniEngine 0 (FromTo ''g7'' ''h8'') = Some 21 \<and> isGameOver miniEngine 21"
    by code_simp
  have a4: "chessRef lastPly = Some 3 \<and> \<not> isGameOver miniEngine 3 \<and> moves miniEngine 3 \<noteq> []
      \<and> isGameOver miniEngine (aiPosition miniEngine 0 3)"
    by code_simp
  have v: "aiPosition miniEngine 0 3 = 14" "inCheck miniEngine 14 = True" "length (history lastPly) = 6"
    "length (history chessStarted) = 3"
    "isCheckmate miniEngine 14 = True" "turn miniEngine 14 = White"
    "isCheckmate miniEngine 11 = True" "turn miniEngine 11 = Black"
    "isCheckmate miniEngine 21 = False" "isDraw miniEngine 21 = True" "isStalemate miniEngine 21 = True"
    "history ?m = [textEntry (''init-'', 1) Model ''Good day, Srabon. Victor online and ready to assist.'']"
    by code_simp+
  note t1 = natural_end_of_game[where cb = ?cb and r = 2 and c = 2 and w = "Winner MarkX" and now = 7
      and s = ?m, THEN conjunct1, THEN mp, OF a1]
  note t1' = natural_end_of_game[where cb = ?db and r = 2 and c = 2 and w = Draw and now = 7
      and s = ?m, THEN conjunct1, THEN mp, OF a1']
  note t2 = natural_end_of_game[where cb = ?ab and rnd = 0 and w = "Winner MarkO" and now = 7
      and s = ?m, THEN conjunct2, THEN conjunct1, THEN mp, OF a2]
  note t2' = natural_end_of_game[where cb = ?db and rnd = 0 and w = Draw and now = 7
      and s = ?m, THEN conjunct2, THEN conjunct1, THEN mp, OF a2']
  note t3 = natural_end_of_game[where s = chessStarted and p = 0 and E = miniEngine and now = 9
      and mv = "FromTo ''h5'' ''f7''" and p' = 11,
      THEN conjunct2, THEN conjunct2, THEN conjunct1, THEN mp, OF a3]
  note t3' = natural_end_of_game[where s = chessStarted and p = 0 and E = miniEngine and now = 9
      and mv = "FromTo ''g7'' ''h8''" and p' = 21,
      THEN conjunct2, THEN conjunct2, THEN conjunct1, THEN mp, OF a3']
  note t4 = natural_end_of_game[where s = lastPly and p = 3 and E = miniEngine and now = 10 and rnd = 0,
      THEN conjunct2, THEN conjunct2, THEN conjunct2, THEN mp, OF a4]
  have c1: "map text (drop 1 (history (handlePlayerMove 7 2 2 ?cb ?m)))
     = [None, Some ''Congratulations, Srabon, you've won!'',
        Some ''Game concluded. I am ready for your next command, Srabon.'']"
    using t1 by (simp add: v textEntry_def widgetEntry_def)
  have c1': "map text (drop 1 (history (handlePlayerMove 7 2 2 ?db ?m)))
     = [None, Some ''A draw. A well-played game.'',
        Some ''Game concluded. I am ready for your next command, Srabon.'']"
    using t1' by (simp add: v textEntry_def widgetEntry_def)
  have c2: "map text (drop 1 (history (handleAiMove 7 0 ?ab ?m)))
     = [None, Some ''It appears I have won this round. Better luck next time, Srabon.'',
        Some ''Game concluded. I am ready for your next command, Srabon.'']"
    using t2 by (simp add: v textEntry_def widgetEntry_def)
  have c2': "map text (drop 1 (history (handleAiMove 7 0 ?db ?m)))
     = [None, Some ''A draw. A well-played game.'',
        Some ''Game concluded. I am ready for your next command, Srabon.'']"
    using t2' by (simp add: v textEntry_def widgetEntry_def)
  have c3: "map text (drop 3 (history (snd (handlePlayerChessMove miniEngine 9 (FromTo ''h5'' ''f7'') chessStarted))))
     = [None, Some ''Checkmate. An impressive victory, Srabon.'',
        Some ''Game concluded. I am ready for your next command, Srabon.'']"
    using t3 by (simp add: v textEntry_def widgetEntry_def)
  have c3': "map text (drop 3 (history (snd (handlePlayerChessMove miniEngine 9 (FromTo ''g7'' ''h8'') chessStarted))))
     = [None, Some ''Stalemate. The game is a draw.'',
        Some ''Game concluded. I am ready for your next command, Srabon.'']"
    using t3' by (simp add: v textEntry_def widgetEntry_def)
  have c4: "map text (drop 6 (history (handleAiChessMove miniEngine 10 0 lastPly)))
     = [Some ''Check.'', None, Some ''Checkmate. I have won this time, Srabon.'',
        Some ''Game concluded. I am ready for your next command, Srabon.'']"
    using t4 by (simp add: v textEntry_def widgetEntry_def)
  from t3 have g3: "activeGame (snd (handlePlayerChessMove miniEngine 9 (FromTo ''h5'' ''f7'') chessStarted)) = NoGame"
    by (rule conjunct2)
  from t4 have g4: "activeGame (handleAiChessMove miniEngine 10 0 lastPly) = NoGame"
    by (rule conjunct2)
  show ?thesis
    by (intro conjI) (rule c1 c1' c2 c2' c3 c3' g3 c4 g4)+
qed

end
